theory Spec2Isabelle
  imports Complex_Main
begin

section \<open>JavaScript values used by the editor\<close>

text \<open>
  A JavaScript number is modelled as an exact rational or one of the three non-finite
  values. Finite arithmetic is exact (the rounding of IEEE doubles and the sign of zero
  are not modelled); the non-finite results of a division by zero are kept, since the
  handlers divide by DOM sizes that may be zero.
\<close>

datatype jsnum = Num rat | PInf | NInf | NaN

fun jneg :: "jsnum \<Rightarrow> jsnum" where
  "jneg (Num a) = Num (- a)"
| "jneg PInf = NInf"
| "jneg NInf = PInf"
| "jneg NaN = NaN"

fun jadd :: "jsnum \<Rightarrow> jsnum \<Rightarrow> jsnum" where
  "jadd NaN _ = NaN"
| "jadd _ NaN = NaN"
| "jadd (Num a) (Num b) = Num (a + b)"
| "jadd PInf NInf = NaN"
| "jadd NInf PInf = NaN"
| "jadd PInf _ = PInf"
| "jadd NInf _ = NInf"
| "jadd (Num a) b = b"

definition jsub :: "jsnum \<Rightarrow> jsnum \<Rightarrow> jsnum" where
  "jsub a b = jadd a (jneg b)"

fun jmul :: "jsnum \<Rightarrow> jsnum \<Rightarrow> jsnum" where
  "jmul NaN _ = NaN"
| "jmul _ NaN = NaN"
| "jmul (Num a) (Num b) = Num (a * b)"
| "jmul (Num a) PInf = (if 0 < a then PInf else if a < 0 then NInf else NaN)"
| "jmul (Num a) NInf = (if 0 < a then NInf else if a < 0 then PInf else NaN)"
| "jmul PInf (Num b) = (if 0 < b then PInf else if b < 0 then NInf else NaN)"
| "jmul NInf (Num b) = (if 0 < b then NInf else if b < 0 then PInf else NaN)"
| "jmul PInf PInf = PInf"
| "jmul NInf NInf = PInf"
| "jmul PInf NInf = NInf"
| "jmul NInf PInf = NInf"

fun jdiv :: "jsnum \<Rightarrow> jsnum \<Rightarrow> jsnum" where
  "jdiv NaN _ = NaN"
| "jdiv _ NaN = NaN"
| "jdiv (Num a) (Num b) =
     (if b \<noteq> 0 then Num (a / b)
      else if 0 < a then PInf else if a < 0 then NInf else NaN)"
| "jdiv (Num a) _ = Num 0"
| "jdiv PInf (Num b) = (if 0 \<le> b then PInf else NInf)"
| "jdiv NInf (Num b) = (if 0 \<le> b then NInf else PInf)"
| "jdiv _ _ = NaN"

fun jlt :: "jsnum \<Rightarrow> jsnum \<Rightarrow> bool" where
  "jlt NaN _ = False"
| "jlt _ NaN = False"
| "jlt (Num a) (Num b) = (a < b)"
| "jlt (Num a) PInf = True"
| "jlt NInf (Num b) = True"
| "jlt NInf PInf = True"
| "jlt _ _ = False"

definition jgt :: "jsnum \<Rightarrow> jsnum \<Rightarrow> bool" where
  "jgt a b = jlt b a"

text \<open>\<^verbatim>\<open>Math.round\<close>: the nearest integer, a half rounded towards plus infinity.\<close>

fun jround :: "jsnum \<Rightarrow> jsnum" where
  "jround (Num a) = Num (of_int \<lfloor>a + 1 / 2\<rfloor>)"
| "jround v = v"

text \<open>
  \<^verbatim>\<open>Array.prototype.slice(start, end)\<close>: a negative bound counts from the end, and
  both bounds are clamped to the array.
\<close>

definition js_slice :: "'a list \<Rightarrow> int \<Rightarrow> int \<Rightarrow> 'a list" where
  "js_slice xs start end =
     (let len = int (length xs);
          k = (if start < 0 then max (len + start) 0 else min start len);
          fin = (if end < 0 then max (len + end) 0 else min end len)
      in take (nat (fin - k)) (drop (nat k) xs))"

text \<open>\<^verbatim>\<open>xs[i] ?? null\<close>: an index outside the array reads \<^verbatim>\<open>undefined\<close>.\<close>

definition js_index :: "'a list \<Rightarrow> int \<Rightarrow> 'a option" where
  "js_index xs i = (if 0 \<le> i \<and> i < int (length xs) then Some (xs ! nat i) else None)"

section \<open>Strings, thrown values and data URLs\<close>

text \<open>\<^verbatim>\<open>String.prototype.split\<close> with a one-character separator.\<close>

fun split_on :: "char \<Rightarrow> string \<Rightarrow> string list" where
  "split_on c [] = [[]]"
| "split_on c (x # xs) =
     (if x = c then [] # split_on c xs
      else (case split_on c xs of [] \<Rightarrow> [[x]] | y # ys \<Rightarrow> (x # y) # ys))"

definition line_terminator :: "char \<Rightarrow> bool" where
  "line_terminator c = (c = CHR 0x0A \<or> c = CHR 0x0D)"

text \<open>
  The regular expression \<^verbatim>\<open>/:(.*?);/\<close>: the leftmost colon that is followed, on the same
  line, by a semicolon; the group is the text between the two.
\<close>

fun upto_semicolon :: "string \<Rightarrow> string option" where
  "upto_semicolon [] = None"
| "upto_semicolon (x # xs) =
     (if x = CHR '';'' then Some []
      else if line_terminator x then None
      else map_option ((#) x) (upto_semicolon xs))"

fun mime_match :: "string \<Rightarrow> string option" where
  "mime_match [] = None"
| "mime_match (x # xs) =
     (if x = CHR '':''
      then (case upto_semicolon xs of Some g \<Rightarrow> Some g | None \<Rightarrow> mime_match xs)
      else mime_match xs)"

text \<open>\<^verbatim>\<open>!prompt.trim()\<close>: the prompt holds white space only.\<close>

definition js_whitespace :: "char \<Rightarrow> bool" where
  "js_whitespace c = (of_char c \<in> {9, 10, 11, 12, 13, 32, 160 :: nat})"

definition trim_empty :: "string \<Rightarrow> bool" where
  "trim_empty p = list_all js_whitespace p"

text \<open>
  What a \<^verbatim>\<open>catch\<close> receives: an \<^verbatim>\<open>Error\<close> with its message, or any other value.
  \<open>error_message\<close> is \<^verbatim>\<open>err instanceof Error ? err.message : 'An unknown error occurred.'\<close>.
\<close>

datatype js_thrown = ErrorObj string | OtherThrown

fun error_message :: "js_thrown \<Rightarrow> string" where
  "error_message (ErrorObj m) = m"
| "error_message OtherThrown = ''An unknown error occurred.''"

text \<open>The settled value of a promise of the generative service.\<close>

datatype 'a settled = Fulfilled 'a | Rejected js_thrown

text \<open>A \<^verbatim>\<open>File\<close>: its name, its MIME type and its bytes.\<close>

record jsfile =
  fname :: string
  mime :: string
  fbytes :: "nat list"

section \<open>Pixels, surfaces and the canvas operations\<close>

text \<open>
  A pixel is red, green, blue and alpha in the unit interval, the colour premultiplied
  by alpha as a canvas bitmap holds it. Channels are exact rationals: the 8-bit
  quantisation of a real bitmap is not modelled. A surface (a decoded image or the
  bitmap of a canvas) has a size and a pixel at every coordinate.
\<close>

type_synonym rgba = "rat \<times> rat \<times> rat \<times> rat"

record surface =
  swidth :: nat
  sheight :: nat
  pixel :: "nat \<Rightarrow> nat \<Rightarrow> rgba"

definition transparent :: rgba where
  "transparent = (0, 0, 0, 0)"

fun alpha :: "rgba \<Rightarrow> rat" where
  "alpha (r, g, b, a) = a"

fun valid_px :: "rgba \<Rightarrow> bool" where
  "valid_px (r, g, b, a) =
     (0 \<le> r \<and> r \<le> a \<and> 0 \<le> g \<and> g \<le> a \<and> 0 \<le> b \<and> b \<le> a \<and> a \<le> 1)"

definition clamp01 :: "rat \<Rightarrow> rat" where
  "clamp01 v = max 0 (min 1 v)"

fun unpremultiply :: "rgba \<Rightarrow> rgba" where
  "unpremultiply (r, g, b, a) = (if a = 0 then (0, 0, 0, 0) else (r / a, g / a, b / a, a))"

fun premultiply :: "rgba \<Rightarrow> rgba" where
  "premultiply (r, g, b, a) = (r * a, g * a, b * a, a)"

text \<open>
  The CSS filter functions \<^verbatim>\<open>brightness\<close>, \<^verbatim>\<open>contrast\<close> and \<^verbatim>\<open>saturate\<close> (Filter Effects:
  a linear transfer with slope \<open>k\<close>; the same with intercept \<open>(1 - k) / 2\<close>; the
  saturation matrix), on colours that are not premultiplied, each result clamped.
\<close>

fun css_brightness :: "rat \<Rightarrow> rgba \<Rightarrow> rgba" where
  "css_brightness k (r, g, b, a) = (clamp01 (k * r), clamp01 (k * g), clamp01 (k * b), a)"

fun css_contrast :: "rat \<Rightarrow> rgba \<Rightarrow> rgba" where
  "css_contrast k (r, g, b, a) =
     (clamp01 (k * r + (1 - k) / 2), clamp01 (k * g + (1 - k) / 2),
      clamp01 (k * b + (1 - k) / 2), a)"

fun css_saturate :: "rat \<Rightarrow> rgba \<Rightarrow> rgba" where
  "css_saturate k (r, g, b, a) =
     (clamp01 ((213 / 1000 + 787 / 1000 * k) * r + (715 / 1000 - 715 / 1000 * k) * g
               + (72 / 1000 - 72 / 1000 * k) * b),
      clamp01 ((213 / 1000 - 213 / 1000 * k) * r + (715 / 1000 + 285 / 1000 * k) * g
               + (72 / 1000 - 72 / 1000 * k) * b),
      clamp01 ((213 / 1000 - 213 / 1000 * k) * r + (715 / 1000 - 715 / 1000 * k) * g
               + (72 / 1000 + 928 / 1000 * k) * b),
      a)"

text \<open>
  The compositing operators the editor selects (Compositing and Blending):
  \<^verbatim>\<open>source-over\<close>, \<^verbatim>\<open>destination-in\<close>, and the blend modes \<^verbatim>\<open>overlay\<close> and
  \<^verbatim>\<open>color-dodge\<close>, which blend where source and backdrop overlap and composite
  source-over. The first argument is the source pixel, the second the backdrop.
\<close>

datatype composite_op = SourceOver | DestinationIn | Overlay | ColorDodge

fun source_over :: "rgba \<Rightarrow> rgba \<Rightarrow> rgba" where
  "source_over (sr, sg, sb, sa) (dr, dg, db, da) =
     (sr + dr * (1 - sa), sg + dg * (1 - sa), sb + db * (1 - sa), sa + da * (1 - sa))"

fun destination_in :: "rgba \<Rightarrow> rgba \<Rightarrow> rgba" where
  "destination_in (sr, sg, sb, sa) (dr, dg, db, da) = (dr * sa, dg * sa, db * sa, da * sa)"

definition overlay_blend :: "rat \<Rightarrow> rat \<Rightarrow> rat" where
  "overlay_blend cb cs =
     (if cb \<le> 1 / 2 then cs * (2 * cb)
      else cs + (2 * cb - 1) - cs * (2 * cb - 1))"

definition color_dodge_blend :: "rat \<Rightarrow> rat \<Rightarrow> rat" where
  "color_dodge_blend cb cs =
     (if cb = 0 then 0 else if cs = 1 then 1 else min 1 (cb / (1 - cs)))"

definition blend_channel ::
  "(rat \<Rightarrow> rat \<Rightarrow> rat) \<Rightarrow> rat \<Rightarrow> rat \<Rightarrow> rat \<Rightarrow> rat \<Rightarrow> rat" where
  "blend_channel B cs sa cb da =
     (1 - da) * cs + (1 - sa) * cb
     + (if sa = 0 \<or> da = 0 then 0 else sa * da * B (cb / da) (cs / sa))"

fun blend_over :: "(rat \<Rightarrow> rat \<Rightarrow> rat) \<Rightarrow> rgba \<Rightarrow> rgba \<Rightarrow> rgba" where
  "blend_over B (sr, sg, sb, sa) (dr, dg, db, da) =
     (blend_channel B sr sa dr da, blend_channel B sg sa dg da, blend_channel B sb sa db da,
      sa + da * (1 - sa))"

fun composite :: "composite_op \<Rightarrow> rgba \<Rightarrow> rgba \<Rightarrow> rgba" where
  "composite SourceOver src dst = source_over src dst"
| "composite DestinationIn src dst = destination_in src dst"
| "composite Overlay src dst = blend_over overlay_blend src dst"
| "composite ColorDodge src dst = blend_over color_dodge_blend src dst"

text \<open>A fresh canvas, and \<^verbatim>\<open>clearRect\<close> over the whole canvas: transparent black.\<close>

definition newCanvas :: "nat \<Rightarrow> nat \<Rightarrow> surface" where
  "newCanvas w h = \<lparr>swidth = w, sheight = h, pixel = (\<lambda>x y. transparent)\<rparr>"

definition clearRect :: "surface \<Rightarrow> surface" where
  "clearRect cv = cv\<lparr>pixel := (\<lambda>x y. transparent)\<rparr>"

text \<open>
  Painting at the origin: \<open>src\<close> gives the painted pixels, which cover \<open>w\<close> by \<open>h\<close>;
  beyond them the source is transparent. Every pixel of the canvas is composited.
\<close>

definition paint ::
  "composite_op \<Rightarrow> nat \<Rightarrow> nat \<Rightarrow> (nat \<Rightarrow> nat \<Rightarrow> rgba) \<Rightarrow> surface \<Rightarrow> surface" where
  "paint op w h src cv =
     cv\<lparr>pixel := (\<lambda>x y.
          if x < swidth cv \<and> y < sheight cv
          then composite op (if x < w \<and> y < h then src x y else transparent) (pixel cv x y)
          else pixel cv x y)\<rparr>"

text \<open>A CSS colour \<^verbatim>\<open>rgba(r, g, b, a)\<close> as a pixel; the alpha is clamped to the unit interval.\<close>

definition css_rgba :: "rat \<Rightarrow> rat \<Rightarrow> rat \<Rightarrow> rat \<Rightarrow> rgba" where
  "css_rgba r g b a = premultiply (r / 255, g / 255, b / 255, clamp01 a)"

text \<open>
  What the browser supplies: \<^verbatim>\<open>atob\<close> (\<open>Inl\<close> is the exception it throws),
  \<^verbatim>\<open>Date.now()\<close> as text, \<^verbatim>\<open>canvas.toDataURL('image/png')\<close>, \<^verbatim>\<open>URL.createObjectURL\<close>,
  the resampling of \<^verbatim>\<open>drawImage\<close> from a source rectangle to a destination size, and
  whether \<^verbatim>\<open>getContext('2d')\<close> returns a context. The registry of object URLs
  (\<^verbatim>\<open>URL.revokeObjectURL\<close>) is not part of the model.
\<close>

record platform =
  atob :: "string \<Rightarrow> js_thrown + string"
  dateNow :: string
  toDataURL :: "surface \<Rightarrow> string"
  createObjectURL :: "jsfile \<Rightarrow> string"
  resample :: "surface \<Rightarrow> rat \<times> rat \<times> rat \<times> rat \<Rightarrow> rat \<times> rat \<Rightarrow> nat \<Rightarrow> nat \<Rightarrow> rgba"
  hasContext2d :: bool

text \<open>
  The \<^verbatim>\<open>type\<close> that \<^verbatim>\<open>new File\<close> keeps: the given one in ASCII lower case, or the
  empty string when it holds a character that is not printable ASCII.
\<close>

definition ascii_lower :: "char \<Rightarrow> char" where
  "ascii_lower c =
     (let n = (of_char c :: nat) in if 65 \<le> n \<and> n \<le> 90 then char_of (n + 32) else c)"

definition file_type :: "string \<Rightarrow> string" where
  "file_type t =
     (if list_all (\<lambda>c. 32 \<le> (of_char c :: nat) \<and> (of_char c :: nat) \<le> 126) t
      then map ascii_lower t else [])"

text \<open>The loop \<^verbatim>\<open>while(n--){ u8arr[n] = bstr.charCodeAt(n); }\<close>.\<close>

fun fill_u8 :: "string \<Rightarrow> nat \<Rightarrow> nat list \<Rightarrow> nat list" where
  "fill_u8 bstr 0 u8arr = u8arr"
| "fill_u8 bstr (Suc n) u8arr = fill_u8 bstr n (u8arr[n := of_char (bstr ! n)])"

definition dataURLtoFile :: "platform \<Rightarrow> string \<Rightarrow> string \<Rightarrow> js_thrown + jsfile" where
  "dataURLtoFile P dataurl filename =
     (let arr = split_on CHR '','' dataurl
      in if length arr < 2 then Inl (ErrorObj ''Invalid data URL'')
         else (case mime_match (arr ! 0) of
                 None \<Rightarrow> Inl (ErrorObj ''Could not parse MIME type from data URL'')
               | Some m \<Rightarrow>
                   if m = [] then Inl (ErrorObj ''Could not parse MIME type from data URL'')
                   else (case atob P (arr ! 1) of
                           Inl e \<Rightarrow> Inl e
                         | Inr bstr \<Rightarrow>
                             Inr \<lparr>fname = filename, mime = file_type m,
                                  fbytes = fill_u8 bstr (length bstr)
                                             (replicate (length bstr) 0)\<rparr>)))"

section \<open>Session state of the \<^verbatim>\<open>App\<close> component\<close>

datatype tab = Retouch | Crop | Manual | Adjust | Filters | Restore

text \<open>\<^verbatim>\<open>ManualAdjustments\<close> of \<^verbatim>\<open>ManualAdjustmentPanel\<close>; sliders deliver finite numbers.\<close>

record ManualAdjustments =
  temperature :: rat
  tint :: rat
  exposure :: rat
  contrast :: rat
  highlights :: rat
  shadows :: rat
  whites :: rat
  blacks :: rat
  clarity :: rat
  vibrance :: rat
  saturation :: rat

definition defaultAdjustments :: ManualAdjustments where
  "defaultAdjustments =
     \<lparr>temperature = 0, tint = 0, exposure = 0, contrast = 0, highlights = 0, shadows = 0,
      whites = 0, blacks = 0, clarity = 0, vibrance = 0, saturation = 0\<rparr>"

text \<open>The rectangle of \<^verbatim>\<open>react-image-crop\<close> (\<^verbatim>\<open>Crop\<close> and \<^verbatim>\<open>PixelCrop\<close>).\<close>

record crop_rect =
  cx :: jsnum
  cy :: jsnum
  cwidth :: jsnum
  cheight :: jsnum

text \<open>Every \<^verbatim>\<open>useState\<close> cell of \<^verbatim>\<open>App\<close>, in the order of the source.\<close>

record app_state =
  history :: "jsfile list"
  historyIndex :: int
  prompt :: string
  isLoading :: bool
  error :: "string option"
  editHotspot :: "(jsnum \<times> jsnum) option"
  displayHotspot :: "(jsnum \<times> jsnum) option"
  activeTab :: tab
  crop :: "crop_rect option"
  completedCrop :: "crop_rect option"
  aspect :: "jsnum option"
  isComparing :: bool
  propImages :: "jsfile list"
  propImageUrls :: "string list"
  isDraggingProp :: bool
  brushSize :: rat
  brushOpacity :: rat
  isPainting :: bool
  showBrushCursor :: bool
  brushPosition :: "jsnum \<times> jsnum"
  adjustments :: ManualAdjustments

definition initialState :: app_state where
  "initialState =
     \<lparr>history = [], historyIndex = - 1, prompt = [], isLoading = False, error = None,
      editHotspot = None, displayHotspot = None, activeTab = Retouch, crop = None,
      completedCrop = None, aspect = None, isComparing = False, propImages = [],
      propImageUrls = [], isDraggingProp = False, brushSize = 40, brushOpacity = 100,
      isPainting = False, showBrushCursor = False, brushPosition = (Num 0, Num 0),
      adjustments = defaultAdjustments\<rparr>"

definition currentImage :: "app_state \<Rightarrow> jsfile option" where
  "currentImage s = js_index (history s) (historyIndex s)"

definition originalImage :: "app_state \<Rightarrow> jsfile option" where
  "originalImage s = js_index (history s) 0"

definition canUndo :: "app_state \<Rightarrow> bool" where
  "canUndo s = (historyIndex s > 0)"

definition canRedo :: "app_state \<Rightarrow> bool" where
  "canRedo s = (historyIndex s < int (length (history s)) - 1)"

section \<open>History\<close>

text \<open>
  \<^verbatim>\<open>addImageToHistory\<close> closes over \<^verbatim>\<open>history\<close> and \<^verbatim>\<open>historyIndex\<close> of the render that
  created it: \<open>h\<close> and \<open>i\<close> are these captured values, \<open>s\<close> is the state the setters
  act on. A handler that runs in the current render passes \<open>history s\<close> and
  \<open>historyIndex s\<close>.
\<close>

definition addImageToHistory :: "jsfile list \<Rightarrow> int \<Rightarrow> jsfile \<Rightarrow> app_state \<Rightarrow> app_state" where
  "addImageToHistory h i newImageFile s =
     (let newHistory = js_slice h 0 (i + 1) @ [newImageFile]
      in s\<lparr>history := newHistory,
           historyIndex := int (length newHistory) - 1,
           crop := None,
           completedCrop := None,
           adjustments := defaultAdjustments\<rparr>)"

definition handleUndo :: "app_state \<Rightarrow> app_state" where
  "handleUndo s = (if canUndo s then s\<lparr>historyIndex := historyIndex s - 1\<rparr> else s)"

definition handleRedo :: "app_state \<Rightarrow> app_state" where
  "handleRedo s = (if canRedo s then s\<lparr>historyIndex := historyIndex s + 1\<rparr> else s)"

definition handleReset :: "app_state \<Rightarrow> app_state" where
  "handleReset s = (if length (history s) > 0 then s\<lparr>historyIndex := 0\<rparr> else s)"


section \<open>Prop images and loading a base image\<close>

definition handleClearAllPropImages :: "app_state \<Rightarrow> app_state" where
  "handleClearAllPropImages s = s\<lparr>propImages := [], propImageUrls := []\<rparr>"

text \<open>\<^verbatim>\<open>xs.filter((_, index) => index !== indexToRemove)\<close>.\<close>

definition drop_index :: "nat \<Rightarrow> 'a list \<Rightarrow> 'a list" where
  "drop_index i xs = map fst (filter (\<lambda>(x, k). k \<noteq> i) (zip xs [0 ..< length xs]))"

definition handleRemovePropImage :: "nat \<Rightarrow> app_state \<Rightarrow> app_state" where
  "handleRemovePropImage indexToRemove s =
     s\<lparr>propImages := drop_index indexToRemove (propImages s),
       propImageUrls := drop_index indexToRemove (propImageUrls s)\<rparr>"

definition handlePropImageSelect ::
  "platform \<Rightarrow> jsfile list option \<Rightarrow> app_state \<Rightarrow> app_state" where
  "handlePropImageSelect P files s =
     (case files of
        None \<Rightarrow> s
      | Some newFiles \<Rightarrow>
          if length newFiles > 0
          then s\<lparr>propImages := propImages s @ newFiles,
                 propImageUrls := propImageUrls s @ map (createObjectURL P) newFiles\<rparr>
          else s)"

definition handlePropDrop :: "platform \<Rightarrow> jsfile list option \<Rightarrow> app_state \<Rightarrow> app_state" where
  "handlePropDrop P files s = handlePropImageSelect P files (s\<lparr>isDraggingProp := False\<rparr>)"

definition handleImageUpload :: "jsfile \<Rightarrow> app_state \<Rightarrow> app_state" where
  "handleImageUpload f s =
     (handleClearAllPropImages s)
       \<lparr>error := None, history := [f], historyIndex := 0, editHotspot := None,
        displayHotspot := None, activeTab := Retouch, crop := None, completedCrop := None\<rparr>"

definition handleFileSelect :: "jsfile list option \<Rightarrow> app_state \<Rightarrow> app_state" where
  "handleFileSelect files s =
     (case files of Some (f # rest) \<Rightarrow> handleImageUpload f s | _ \<Rightarrow> s)"

definition handleUploadNew :: "app_state \<Rightarrow> app_state" where
  "handleUploadNew s =
     (handleClearAllPropImages s)
       \<lparr>history := [], historyIndex := - 1, error := None, prompt := []\<rparr>"

section \<open>Requests to the generative service\<close>

text \<open>
  The service (\<^verbatim>\<open>generateEditedImage\<close>, \<^verbatim>\<open>generateFilteredImage\<close>,
  \<^verbatim>\<open>generateAdjustedImage\<close>) is outside the component: its promise settles with a data
  URL or rejects. \<open>request_result\<close> is the \<^verbatim>\<open>try\<close> block up to the decoded file:
  \<open>Inl\<close> is what the \<^verbatim>\<open>catch\<close> receives.

  Each handler is asynchronous. The part before the \<^verbatim>\<open>await\<close> is \<open>_begin\<close> (\<open>None\<close>:
  the handler returned without a request); the part after it is \<open>_settle\<close>, which runs
  on the state \<open>s\<close> of that later moment with the history \<open>h\<close> and cursor \<open>i\<close> that
  \<^verbatim>\<open>addImageToHistory\<close> captured when the handler was created. The handler without a
  suffix is the two parts with nothing happening in between.
\<close>

definition request_result ::
  "platform \<Rightarrow> string settled \<Rightarrow> string \<Rightarrow> js_thrown + jsfile" where
  "request_result P r filename =
     (case r of Rejected e \<Rightarrow> Inl e | Fulfilled url \<Rightarrow> dataURLtoFile P url filename)"

definition handleGenerate_begin :: "app_state \<Rightarrow> app_state option" where
  "handleGenerate_begin s =
     (if currentImage s = None then None
      else if trim_empty (prompt s) \<or> editHotspot s = None then None
      else Some (s\<lparr>isLoading := True, error := None\<rparr>))"

definition handleGenerate_settle ::
  "platform \<Rightarrow> jsfile list \<Rightarrow> int \<Rightarrow> string settled \<Rightarrow> app_state \<Rightarrow> app_state" where
  "handleGenerate_settle P h i r s =
     (case request_result P r (''edited-'' @ dateNow P @ ''.png'') of
        Inr newImageFile \<Rightarrow>
          handleClearAllPropImages
            ((addImageToHistory h i newImageFile s)
               \<lparr>editHotspot := None, displayHotspot := None\<rparr>)
      | Inl err \<Rightarrow> s\<lparr>error := Some (error_message err)\<rparr>)
     \<lparr>isLoading := False\<rparr>"

definition handleGenerate :: "platform \<Rightarrow> string settled \<Rightarrow> app_state \<Rightarrow> app_state" where
  "handleGenerate P r s =
     (case handleGenerate_begin s of
        None \<Rightarrow> s
      | Some s1 \<Rightarrow> handleGenerate_settle P (history s) (historyIndex s) r s1)"

definition handleApplyFilter_begin :: "app_state \<Rightarrow> app_state option" where
  "handleApplyFilter_begin s =
     (if currentImage s = None then None
      else Some (s\<lparr>isLoading := True, error := None\<rparr>))"

definition handleApplyFilter_settle ::
  "platform \<Rightarrow> jsfile list \<Rightarrow> int \<Rightarrow> string settled \<Rightarrow> app_state \<Rightarrow> app_state" where
  "handleApplyFilter_settle P h i r s =
     (case request_result P r (''filtered-'' @ dateNow P @ ''.png'') of
        Inr newImageFile \<Rightarrow> addImageToHistory h i newImageFile s
      | Inl err \<Rightarrow> s\<lparr>error := Some (error_message err)\<rparr>)
     \<lparr>isLoading := False\<rparr>"

definition handleApplyFilter :: "platform \<Rightarrow> string settled \<Rightarrow> app_state \<Rightarrow> app_state" where
  "handleApplyFilter P r s =
     (case handleApplyFilter_begin s of
        None \<Rightarrow> s
      | Some s1 \<Rightarrow> handleApplyFilter_settle P (history s) (historyIndex s) r s1)"

definition handleApplyAdjustment_begin :: "app_state \<Rightarrow> app_state option" where
  "handleApplyAdjustment_begin s =
     (if currentImage s = None then None
      else Some (s\<lparr>isLoading := True, error := None\<rparr>))"

definition handleApplyAdjustment_settle ::
  "platform \<Rightarrow> jsfile list \<Rightarrow> int \<Rightarrow> string settled \<Rightarrow> app_state \<Rightarrow> app_state" where
  "handleApplyAdjustment_settle P h i r s =
     (case request_result P r (''adjusted-'' @ dateNow P @ ''.png'') of
        Inr newImageFile \<Rightarrow> addImageToHistory h i newImageFile s
      | Inl err \<Rightarrow> s\<lparr>error := Some (error_message err)\<rparr>)
     \<lparr>isLoading := False\<rparr>"

definition handleApplyAdjustment ::
  "platform \<Rightarrow> string settled \<Rightarrow> app_state \<Rightarrow> app_state" where
  "handleApplyAdjustment P r s =
     (case handleApplyAdjustment_begin s of
        None \<Rightarrow> s
      | Some s1 \<Rightarrow> handleApplyAdjustment_settle P (history s) (historyIndex s) r s1)"

text \<open>The button \<^verbatim>\<open>Try Again\<close> of the error panel: \<^verbatim>\<open>setError(null)\<close>.\<close>

definition dismissError :: "app_state \<Rightarrow> app_state" where
  "dismissError s = s\<lparr>error := None\<rparr>"

section \<open>Manual adjustment\<close>

text \<open>
  \<^verbatim>\<open>ctx.filter\<close> is the list \<^verbatim>\<open>brightness(..) contrast(..) saturate(..)\<close>, applied in this
  order. A negative argument makes the list unparsable, the assignment is then ignored
  and the filter stays \<^verbatim>\<open>none\<close>. The filter is part of the drawing state: it is never
  reset in the handler, so it also filters the rectangles filled afterwards.
\<close>

definition css_filters :: "ManualAdjustments \<Rightarrow> rgba \<Rightarrow> rgba" where
  "css_filters adj p =
     (let kb = 1 + exposure adj / 100;
          kc = 1 + contrast adj / 100;
          ks = 1 + saturation adj / 100
      in if kb < 0 \<or> kc < 0 \<or> ks < 0 then p
         else premultiply (css_saturate ks (css_contrast kc (css_brightness kb
                (unpremultiply p)))))"

text \<open>\<^verbatim>\<open>fillRect(0, 0, canvas.width, canvas.height)\<close> under the filter of \<open>adj\<close>.\<close>

definition fillRect ::
  "ManualAdjustments \<Rightarrow> composite_op \<Rightarrow> rgba \<Rightarrow> surface \<Rightarrow> surface" where
  "fillRect adj op fillStyle cv =
     paint op (swidth cv) (sheight cv) (\<lambda>x y. css_filters adj fillStyle) cv"

text \<open>
  The canvas that \<^verbatim>\<open>image.onload\<close> of \<^verbatim>\<open>handleApplyManualAdjustment\<close> builds, in exact
  arithmetic. The bytes of the bitmap and of the encoded PNG are \<open>manual_snapshot\<close>
  below.
\<close>

definition manual_canvas :: "ManualAdjustments \<Rightarrow> surface \<Rightarrow> surface" where
  "manual_canvas adj img =
     (let canvas = newCanvas (swidth img) (sheight img);
          c1 = paint SourceOver (swidth img) (sheight img)
                 (\<lambda>x y. css_filters adj (pixel img x y)) canvas;
          c2 = (if temperature adj > 0
                then fillRect adj Overlay (css_rgba 255 165 0 (temperature adj / 200)) c1
                else if temperature adj < 0
                then fillRect adj Overlay (css_rgba 0 100 255 (- temperature adj / 200)) c1
                else c1);
          c3 = (if tint adj > 0
                then fillRect adj ColorDodge (css_rgba 255 0 255 (tint adj / 400)) c2
                else if tint adj < 0
                then fillRect adj ColorDodge (css_rgba 0 255 0 (- tint adj / 400)) c2
                else c2)
      in c3)"

text \<open>
  \<open>img\<close> is the decoded current image that \<^verbatim>\<open>onload\<close> receives; \<open>c\<close> is the state of
  the render in which the handler was called (its \<^verbatim>\<open>adjustments\<close>, \<^verbatim>\<open>history\<close> and
  \<^verbatim>\<open>historyIndex\<close> are captured), \<open>s\<close> the state when \<^verbatim>\<open>onload\<close> runs. An exception
  of \<^verbatim>\<open>dataURLtoFile\<close> is not caught: no setter runs.
\<close>

definition handleApplyManualAdjustment ::
  "platform \<Rightarrow> app_state \<Rightarrow> surface \<Rightarrow> app_state \<Rightarrow> app_state" where
  "handleApplyManualAdjustment P c img s =
     (if currentImage c = None then s
      else if \<not> hasContext2d P then s
      else (case dataURLtoFile P (toDataURL P (manual_canvas (adjustments c) img))
                   (''manual-adjusted-'' @ dateNow P @ ''.png'') of
              Inl err \<Rightarrow> s
            | Inr newImageFile \<Rightarrow>
                addImageToHistory (history c) (historyIndex c) newImageFile s))"

section \<open>Snapshots as bytes\<close>

text \<open>
  The pixels of a PNG snapshot: red, green, blue and alpha as bytes, the colour not
  premultiplied. The bitmap of a canvas holds bytes too, the colour premultiplied.
  \<open>round8\<close> rounds to the nearest whole number. \<open>decode8\<close> is the decoded pixel
  that \<^verbatim>\<open>drawImage\<close> reads, \<open>store8\<close> the bytes that the bitmap keeps of a
  premultiplied pixel, \<open>encode8\<close> the pixel that \<^verbatim>\<open>toDataURL\<close> writes for them.
\<close>

type_synonym rgba8 = "nat \<times> nat \<times> nat \<times> nat"

record image8 =
  iwidth :: nat
  iheight :: nat
  ipixel :: "nat \<Rightarrow> nat \<Rightarrow> rgba8"

definition round8 :: "rat \<Rightarrow> nat" where
  "round8 v = nat \<lfloor>v + 1 / 2\<rfloor>"

fun valid8 :: "rgba8 \<Rightarrow> bool" where
  "valid8 (r, g, b, a) = (r \<le> 255 \<and> g \<le> 255 \<and> b \<le> 255 \<and> a \<le> 255)"

fun alpha8 :: "rgba8 \<Rightarrow> nat" where
  "alpha8 (r, g, b, a) = a"

fun decode8 :: "rgba8 \<Rightarrow> rgba" where
  "decode8 (r, g, b, a) =
     premultiply (of_nat r / 255, of_nat g / 255, of_nat b / 255, of_nat a / 255)"

fun store8 :: "rgba \<Rightarrow> rgba8" where
  "store8 (r, g, b, a) = (round8 (255 * r), round8 (255 * g), round8 (255 * b), round8 (255 * a))"

fun encode8 :: "rgba8 \<Rightarrow> rgba8" where
  "encode8 (r, g, b, a) =
     (if a = 0 then (0, 0, 0, 0)
      else (min 255 (round8 (of_nat r * 255 / of_nat a)),
            min 255 (round8 (of_nat g * 255 / of_nat a)),
            min 255 (round8 (of_nat b * 255 / of_nat a)), a))"

text \<open>
  The snapshot that \<^verbatim>\<open>handleApplyManualAdjustment\<close> makes of a snapshot: the source is
  decoded, \<open>manual_canvas\<close> is built, and the canvas is read out as bytes. The bytes are
  rounded once, when the canvas is read out; this is what the bitmap holds whenever the
  handler paints once, as it does for the all-zero vector. After a tint rectangle the
  real bitmap has been rounded between the two paints as well.
\<close>

definition decode_image :: "image8 \<Rightarrow> surface" where
  "decode_image src =
     \<lparr>swidth = iwidth src, sheight = iheight src, pixel = (\<lambda>x y. decode8 (ipixel src x y))\<rparr>"

definition encode_canvas :: "surface \<Rightarrow> image8" where
  "encode_canvas cv =
     \<lparr>iwidth = swidth cv, iheight = sheight cv,
      ipixel = (\<lambda>x y. encode8 (store8 (pixel cv x y)))\<rparr>"

definition manual_snapshot :: "ManualAdjustments \<Rightarrow> image8 \<Rightarrow> image8" where
  "manual_snapshot adj src = encode_canvas (manual_canvas adj (decode_image src))"

section \<open>Crop\<close>

text \<open>
  The \<^verbatim>\<open>img\<close> element: its decoded bitmap (whose size is \<^verbatim>\<open>naturalWidth\<close> by
  \<^verbatim>\<open>naturalHeight\<close>), its layout size \<^verbatim>\<open>width\<close> by \<^verbatim>\<open>height\<close>, and its client size.
\<close>

record img_element =
  bitmap :: surface
  elWidth :: nat
  elHeight :: nat
  clientWidth :: nat
  clientHeight :: nat

definition naturalWidth :: "img_element \<Rightarrow> nat" where
  "naturalWidth img = swidth (bitmap img)"

definition naturalHeight :: "img_element \<Rightarrow> nat" where
  "naturalHeight img = sheight (bitmap img)"

text \<open>
  Assigning a number to \<^verbatim>\<open>canvas.width\<close>: the conversion to \<^verbatim>\<open>unsigned long\<close>
  truncates and wraps modulo \<open>2^32\<close> (a non-finite number is 0); a value above
  \<open>2^31 - 1\<close> is replaced by the default of the attribute (300 wide, 150 high).
\<close>

fun to_uint32 :: "jsnum \<Rightarrow> nat" where
  "to_uint32 (Num r) = nat ((if 0 \<le> r then \<lfloor>r\<rfloor> else \<lceil>r\<rceil>) mod 4294967296)"
| "to_uint32 v = 0"

definition canvas_dim :: "nat \<Rightarrow> jsnum \<Rightarrow> nat" where
  "canvas_dim dflt v = (let n = to_uint32 v in if n \<le> 2147483647 then n else dflt)"

fun finite_num :: "jsnum \<Rightarrow> rat option" where
  "finite_num (Num r) = Some r"
| "finite_num v = None"

text \<open>
  The arguments that \<^verbatim>\<open>handleApplyCrop\<close> passes to \<^verbatim>\<open>drawImage\<close>: the source rectangle
  \<open>(sx, sy, sw, sh)\<close> and the destination size \<open>(dw, dh)\<close>; the destination is at the
  origin.
\<close>

definition crop_draw ::
  "crop_rect \<Rightarrow> img_element \<Rightarrow> (jsnum \<times> jsnum \<times> jsnum \<times> jsnum) \<times> (jsnum \<times> jsnum)" where
  "crop_draw cc img =
     (let scaleX = jdiv (Num (of_nat (naturalWidth img))) (Num (of_nat (elWidth img)));
          scaleY = jdiv (Num (of_nat (naturalHeight img))) (Num (of_nat (elHeight img)))
      in ((jmul (cx cc) scaleX, jmul (cy cc) scaleY,
           jmul (cwidth cc) scaleX, jmul (cheight cc) scaleY),
          (cwidth cc, cheight cc)))"

text \<open>
  \<^verbatim>\<open>drawImage\<close> with nine arguments onto a canvas: nothing is drawn when an argument
  is not finite or the source rectangle has no width or no height; otherwise the
  browser resamples the source rectangle into the destination.
\<close>

definition drawImage9 ::
  "platform \<Rightarrow> surface \<Rightarrow> (jsnum \<times> jsnum \<times> jsnum \<times> jsnum) \<times> (jsnum \<times> jsnum) \<Rightarrow> surface
     \<Rightarrow> surface" where
  "drawImage9 P img args cv =
     (case args of ((sx, sy, sw, sh), (dw, dh)) \<Rightarrow>
        (case (finite_num sx, finite_num sy, finite_num sw, finite_num sh,
               finite_num dw, finite_num dh) of
           (Some x, Some y, Some w, Some h, Some w', Some h') \<Rightarrow>
             if w = 0 \<or> h = 0 then cv
             else paint SourceOver (swidth cv) (sheight cv)
                    (resample P img (x, y, w, h) (w', h')) cv
         | _ \<Rightarrow> cv))"

definition crop_canvas :: "platform \<Rightarrow> crop_rect \<Rightarrow> img_element \<Rightarrow> surface" where
  "crop_canvas P cc img =
     (let canvas = newCanvas (canvas_dim 300 (cwidth cc))
                     (canvas_dim 150 (cheight cc))
      in drawImage9 P (bitmap img) (crop_draw cc img) canvas)"

definition handleApplyCrop ::
  "platform \<Rightarrow> img_element option \<Rightarrow> app_state \<Rightarrow> app_state" where
  "handleApplyCrop P imgRef s =
     (case (completedCrop s, imgRef) of
        (Some cc, Some img) \<Rightarrow>
          if \<not> hasContext2d P then s
          else (case dataURLtoFile P (toDataURL P (crop_canvas P cc img))
                       (''cropped-'' @ dateNow P @ ''.png'') of
                  Inl err \<Rightarrow> s
                | Inr newImageFile \<Rightarrow>
                    addImageToHistory (history s) (historyIndex s) newImageFile s)
      | _ \<Rightarrow> s)"

section \<open>Restore: the mask compositor\<close>

text \<open>
  The refs of the restore tool: the visible canvas, the hidden mask canvas, and the
  two decoded images of \<^verbatim>\<open>imageObjectsRef\<close>.
\<close>

record compositor =
  displayCanvas :: "surface option"
  maskCanvas :: "surface option"
  current :: "surface option"
  previous :: "surface option"

text \<open>
  \<^verbatim>\<open>drawImage(image, 0, 0, w, h)\<close>: the image itself when it has this size, resampled by
  the browser otherwise.
\<close>

definition scaled :: "platform \<Rightarrow> surface \<Rightarrow> nat \<Rightarrow> nat \<Rightarrow> nat \<Rightarrow> nat \<Rightarrow> rgba" where
  "scaled P img w h =
     (if swidth img = w \<and> sheight img = h then pixel img
      else resample P img (0, 0, of_nat (swidth img), of_nat (sheight img))
             (of_nat w, of_nat h))"

definition redrawComposite :: "platform \<Rightarrow> compositor \<Rightarrow> compositor" where
  "redrawComposite P k =
     (case (displayCanvas k, maskCanvas k, current k, previous k) of
        (Some dc, Some mc, Some cur, Some prev) \<Rightarrow>
          if \<not> hasContext2d P then k
          else
            (let width = swidth dc;
                 height = sheight dc;
                 d1 = clearRect dc;
                 d2 = paint SourceOver width height (scaled P cur width height) d1;
                 t0 = newCanvas width height;
                 t1 = paint SourceOver width height (scaled P prev width height) t0;
                 t2 = paint DestinationIn (swidth mc) (sheight mc) (pixel mc) t1;
                 d3 = paint SourceOver (swidth t2) (sheight t2) (pixel t2) d2
             in k\<lparr>displayCanvas := Some d3\<rparr>)
      | _ \<Rightarrow> k)"

definition handleApplyRestore ::
  "platform \<Rightarrow> surface option \<Rightarrow> app_state \<Rightarrow> app_state" where
  "handleApplyRestore P displayCanvasRef s =
     (case displayCanvasRef of
        None \<Rightarrow> s\<lparr>error := Some ''Canvas not ready for applying restoration.''\<rparr>
      | Some canvas \<Rightarrow>
          (case dataURLtoFile P (toDataURL P canvas) (''restored-'' @ dateNow P @ ''.png'') of
             Inl err \<Rightarrow> s
           | Inr newImageFile \<Rightarrow>
               (addImageToHistory (history s) (historyIndex s) newImageFile s)
                 \<lparr>activeTab := Retouch\<rparr>))"

section \<open>Placing the hotspot\<close>

text \<open>
  The click on the current image: the pointer position, the bounding rectangle of the
  image element (its left and top edge) and the element itself.
\<close>

record click_event =
  clientX :: rat
  clientY :: rat
  imgRectLeft :: rat
  imgRectTop :: rat
  target :: img_element

text \<open>
  The letterbox of \<^verbatim>\<open>object-contain\<close>, as \<^verbatim>\<open>handleImageClick\<close> computes it from the
  natural and the client size: rendered width and height, horizontal and vertical offset.
\<close>

definition contain_fit :: "nat \<Rightarrow> nat \<Rightarrow> nat \<Rightarrow> nat \<Rightarrow> jsnum \<times> jsnum \<times> jsnum \<times> jsnum" where
  "contain_fit nW nH cW cH =
     (let naturalAspect = jdiv (Num (of_nat nW)) (Num (of_nat nH));
          clientAspect = jdiv (Num (of_nat cW)) (Num (of_nat cH))
      in if jgt naturalAspect clientAspect
         then (let renderedWidth = Num (of_nat cW);
                   renderedHeight = jdiv (Num (of_nat cW)) naturalAspect
               in (renderedWidth, renderedHeight, Num 0,
                   jdiv (jsub (Num (of_nat cH)) renderedHeight) (Num 2)))
         else (let renderedHeight = Num (of_nat cH);
                   renderedWidth = jmul (Num (of_nat cH)) naturalAspect
               in (renderedWidth, renderedHeight,
                   jdiv (jsub (Num (of_nat cW)) renderedWidth) (Num 2), Num 0)))"

text \<open>\<open>containerRect\<close> is the bounding rectangle of \<^verbatim>\<open>imageContainerRef.current\<close>, if any.\<close>

definition handleImageClick ::
  "click_event \<Rightarrow> (rat \<times> rat) option \<Rightarrow> app_state \<Rightarrow> app_state" where
  "handleImageClick e containerRect s =
     (if activeTab s \<noteq> Retouch \<or> containerRect = None then s
      else
        (let clickXInImageElement = Num (clientX e - imgRectLeft e);
             clickYInImageElement = Num (clientY e - imgRectTop e);
             imgLeftInContainer = Num (imgRectLeft e - fst (the containerRect));
             imgTopInContainer = Num (imgRectTop e - snd (the containerRect));
             displayX = jadd imgLeftInContainer clickXInImageElement;
             displayY = jadd imgTopInContainer clickYInImageElement;
             (renderedWidth, renderedHeight, offsetX, offsetY) =
               contain_fit (naturalWidth (target e)) (naturalHeight (target e))
                 (clientWidth (target e)) (clientHeight (target e))
         in if jlt clickXInImageElement offsetX
               \<or> jgt clickXInImageElement (jadd offsetX renderedWidth)
               \<or> jlt clickYInImageElement offsetY
               \<or> jgt clickYInImageElement (jadd offsetY renderedHeight)
            then s\<lparr>editHotspot := None, displayHotspot := None\<rparr>
            else
              (let imageX = jsub clickXInImageElement offsetX;
                   imageY = jsub clickYInImageElement offsetY;
                   scale = jdiv (Num (of_nat (naturalWidth (target e)))) renderedWidth;
                   finalX = jround (jmul imageX scale);
                   finalY = jround (jmul imageY scale)
               in s\<lparr>displayHotspot := Some (displayX, displayY),
                     editHotspot := Some (finalX, finalY)\<rparr>)))"

section \<open>The remaining controls and the reachable states\<close>

text \<open>The attribute \<^verbatim>\<open>disabled={tab === 'restore' && !canUndo}\<close> of a tab button.\<close>

definition tab_disabled :: "app_state \<Rightarrow> tab \<Rightarrow> bool" where
  "tab_disabled s t = (t = Restore \<and> \<not> canUndo s)"

text \<open>
  The controls that call a state setter directly, and the mouse handlers of the
  restore canvas as far as they set state (\<open>CanvasMouseDown\<close> carries whether the
  pointer is on the canvas). A disabled tab button does not react.
\<close>

datatype ui_event =
    SetPrompt string
  | SetActiveTab tab
  | SetCrop crop_rect
  | SetCompletedCrop crop_rect
  | SetAspect "jsnum option"
  | SetAdjustments ManualAdjustments
  | SetBrushSize rat
  | SetBrushOpacity rat
  | SetIsComparing bool
  | SetIsDraggingProp bool
  | CanvasMouseEnter
  | CanvasMouseDown bool
  | CanvasMouseMove "jsnum \<times> jsnum"
  | CanvasMouseUp
  | CanvasMouseLeave

fun ui_step :: "ui_event \<Rightarrow> app_state \<Rightarrow> app_state" where
  "ui_step (SetPrompt v) s = s\<lparr>prompt := v\<rparr>"
| "ui_step (SetActiveTab t) s = (if tab_disabled s t then s else s\<lparr>activeTab := t\<rparr>)"
| "ui_step (SetCrop c) s = s\<lparr>crop := Some c\<rparr>"
| "ui_step (SetCompletedCrop c) s = s\<lparr>completedCrop := Some c\<rparr>"
| "ui_step (SetAspect a) s = s\<lparr>aspect := a\<rparr>"
| "ui_step (SetAdjustments a) s = s\<lparr>adjustments := a\<rparr>"
| "ui_step (SetBrushSize v) s = s\<lparr>brushSize := v\<rparr>"
| "ui_step (SetBrushOpacity v) s = s\<lparr>brushOpacity := v\<rparr>"
| "ui_step (SetIsComparing b) s = s\<lparr>isComparing := b\<rparr>"
| "ui_step (SetIsDraggingProp b) s = s\<lparr>isDraggingProp := b\<rparr>"
| "ui_step CanvasMouseEnter s = s\<lparr>showBrushCursor := True\<rparr>"
| "ui_step (CanvasMouseDown inside) s = (if inside then s\<lparr>isPainting := True\<rparr> else s)"
| "ui_step (CanvasMouseMove p) s = s\<lparr>brushPosition := p\<rparr>"
| "ui_step CanvasMouseUp s = s\<lparr>isPainting := False\<rparr>"
| "ui_step CanvasMouseLeave s = s\<lparr>showBrushCursor := False, isPainting := False\<rparr>"

text \<open>
  The states the component can be in: the initial one, and every state a handler
  produces from a reachable one. A continuation that runs after an \<^verbatim>\<open>await\<close> or in
  \<^verbatim>\<open>onload\<close> uses the history captured in an earlier reachable state \<open>c\<close>.
\<close>

inductive reachable :: "app_state \<Rightarrow> bool" where
  init: "reachable initialState"
| ui: "reachable s \<Longrightarrow> reachable (ui_step e s)"
| dismiss: "reachable s \<Longrightarrow> reachable (dismissError s)"
| file_select: "reachable s \<Longrightarrow> reachable (handleFileSelect files s)"
| upload_new: "reachable s \<Longrightarrow> reachable (handleUploadNew s)"
| undo: "reachable s \<Longrightarrow> reachable (handleUndo s)"
| redo: "reachable s \<Longrightarrow> reachable (handleRedo s)"
| reset: "reachable s \<Longrightarrow> reachable (handleReset s)"
| prop_select: "reachable s \<Longrightarrow> reachable (handlePropImageSelect P files s)"
| prop_drop: "reachable s \<Longrightarrow> reachable (handlePropDrop P files s)"
| prop_remove: "reachable s \<Longrightarrow> reachable (handleRemovePropImage n s)"
| click: "reachable s \<Longrightarrow> reachable (handleImageClick ev containerRect s)"
| generate_begin: "reachable s \<Longrightarrow> handleGenerate_begin s = Some s' \<Longrightarrow> reachable s'"
| generate_settle:
    "reachable c \<Longrightarrow> reachable s \<Longrightarrow>
     reachable (handleGenerate_settle P (history c) (historyIndex c) r s)"
| filter_begin: "reachable s \<Longrightarrow> handleApplyFilter_begin s = Some s' \<Longrightarrow> reachable s'"
| filter_settle:
    "reachable c \<Longrightarrow> reachable s \<Longrightarrow>
     reachable (handleApplyFilter_settle P (history c) (historyIndex c) r s)"
| adjustment_begin:
    "reachable s \<Longrightarrow> handleApplyAdjustment_begin s = Some s' \<Longrightarrow> reachable s'"
| adjustment_settle:
    "reachable c \<Longrightarrow> reachable s \<Longrightarrow>
     reachable (handleApplyAdjustment_settle P (history c) (historyIndex c) r s)"
| manual: "reachable c \<Longrightarrow> reachable s \<Longrightarrow> reachable (handleApplyManualAdjustment P c img s)"
| crop: "reachable s \<Longrightarrow> reachable (handleApplyCrop P imgRef s)"
| restore: "reachable s \<Longrightarrow> reachable (handleApplyRestore P displayCanvasRef s)"

section \<open>Concrete inputs\<close>

definition fileA :: jsfile where
  "fileA = \<lparr>fname = ''A'', mime = ''image/png'', fbytes = [1]\<rparr>"

definition fileB :: jsfile where
  "fileB = \<lparr>fname = ''B'', mime = ''image/png'', fbytes = [2]\<rparr>"

definition fileC :: jsfile where
  "fileC = \<lparr>fname = ''C'', mime = ''image/png'', fbytes = [3]\<rparr>"

definition fileD :: jsfile where
  "fileD = \<lparr>fname = ''D'', mime = ''image/png'', fbytes = [4]\<rparr>"

definition stateABC :: app_state where
  "stateABC = initialState\<lparr>history := [fileA, fileB, fileC], historyIndex := 2\<rparr>"

text \<open>A browser whose \<^verbatim>\<open>atob\<close> returns its argument and whose canvases encode to one URL.\<close>

definition P0 :: platform where
  "P0 = \<lparr>atob = (\<lambda>b. Inr b), dateNow = ''0'',
          toDataURL = (\<lambda>cv. ''data:image/png;base64,AA==''),
          createObjectURL = (\<lambda>f. ''blob:'' @ fname f),
          resample = (\<lambda>img src dst x y. transparent),
          hasContext2d = True\<rparr>"

definition url0 :: string where
  "url0 = ''data:image/png;base64,QQ==''"

text \<open>An image of natural size 1000 by 500 shown contain-fit in an element of 400 by 400.\<close>

definition img1000x500 :: img_element where
  "img1000x500 = \<lparr>bitmap = newCanvas 1000 500, elWidth = 400, elHeight = 400,
                   clientWidth = 400, clientHeight = 400\<rparr>"

text \<open>A click at \<open>(x, y)\<close> relative to that element, which sits at \<open>(30, 20)\<close> in the window.\<close>

definition click_at :: "rat \<Rightarrow> rat \<Rightarrow> click_event" where
  "click_at x y = \<lparr>clientX = 30 + x, clientY = 20 + y, imgRectLeft = 30, imgRectTop = 20,
                   target = img1000x500\<rparr>"

text \<open>A session with a base image, a hotspot, a prompt and one prop image.\<close>

definition stateProps :: app_state where
  "stateProps =
     handlePropImageSelect P0 (Some [fileB])
       (ui_step (SetPrompt ''add a hat'')
          (handleImageClick (click_at 200 100) (Some (30, 20))
             (handleFileSelect (Some [fileA]) initialState)))"

text \<open>A session with one successful filter, and the same after one undo.\<close>

definition stateEdited :: app_state where
  "stateEdited = handleApplyFilter P0 (Fulfilled url0) (handleFileSelect (Some [fileA]) initialState)"

definition stateUndone :: app_state where
  "stateUndone = handleUndo stateEdited"

text \<open>A surface of one colour.\<close>

definition solid :: "nat \<Rightarrow> nat \<Rightarrow> rgba \<Rightarrow> surface" where
  "solid w h p = \<lparr>swidth = w, sheight = h, pixel = (\<lambda>x y. p)\<rparr>"

text \<open>The crop rectangle (10, 10, 100, 50) on a 1000 by 1000 image displayed at 500 by 500.\<close>

definition crop0 :: crop_rect where
  "crop0 = \<lparr>cx = Num 10, cy = Num 10, cwidth = Num 100, cheight = Num 50\<rparr>"

definition img500 :: img_element where
  "img500 = \<lparr>bitmap = solid 1000 1000 (1, 1, 1, 1), elWidth = 500, elHeight = 500,
              clientWidth = 500, clientHeight = 500\<rparr>"

text \<open>The pixel of the visible canvas after \<^verbatim>\<open>redrawComposite\<close>, if there is a canvas.\<close>

definition composite_pixel :: "platform \<Rightarrow> compositor \<Rightarrow> nat \<Rightarrow> nat \<Rightarrow> rgba option" where
  "composite_pixel P k x y =
     (case displayCanvas (redrawComposite P k) of
        None \<Rightarrow> None
      | Some out \<Rightarrow> Some (pixel out x y))"

text \<open>
  The blend as the specification words it: the linear interpolation of the previous
  and the current pixel, the weight \<open>m\<close> on the previous one.
\<close>

definition spec_lerp :: "rat \<Rightarrow> rgba \<Rightarrow> rgba \<Rightarrow> rgba" where
  "spec_lerp m p c =
     (case (p, c) of
        ((pr, pg, pb, pa), (cr, cg, cb, ca)) \<Rightarrow>
          (m * pr + (1 - m) * cr, m * pg + (1 - m) * cg, m * pb + (1 - m) * cb,
           m * pa + (1 - m) * ca))"

text \<open>
  Restore sessions on one pixel: the current image is opaque red; the previous image
  is fully transparent or opaque blue; the mask is fully opaque, half opaque or clear.
\<close>

definition curRed :: surface where
  "curRed = solid 1 1 (1, 0, 0, 1)"

definition prevClear :: surface where
  "prevClear = solid 1 1 (0, 0, 0, 0)"

definition prevBlue :: surface where
  "prevBlue = solid 1 1 (0, 0, 1, 1)"

definition maskOpaque :: surface where
  "maskOpaque = solid 1 1 (1, 1, 1, 1)"

definition maskHalf :: surface where
  "maskHalf = solid 1 1 (1 / 2, 1 / 2, 1 / 2, 1 / 2)"

definition maskClear :: surface where
  "maskClear = solid 1 1 (0, 0, 0, 0)"

definition restore_session :: "surface \<Rightarrow> surface \<Rightarrow> compositor" where
  "restore_session prev msk =
     \<lparr>displayCanvas = Some (newCanvas 1 1), maskCanvas = Some msk,
      current = Some curRed, previous = Some prev\<rparr>"

text \<open>
  The overlay formula as the specification words it, on channel values from 0 to 255,
  and the channel it describes for a temperature \<open>t\<close>: the base and the overlay of the
  base with the tint, mixed with weight \<open>t / 200\<close>.
\<close>

definition overlay_spec :: "rat \<Rightarrow> rat \<Rightarrow> rat" where
  "overlay_spec base blend =
     (if base \<le> 127 then 2 * base * blend / 255
      else 255 - 2 * (255 - base) * (255 - blend) / 255)"

definition spec_temperature_channel :: "rat \<Rightarrow> rat \<Rightarrow> rat \<Rightarrow> rat" where
  "spec_temperature_channel t base blend =
     (1 - t / 200) * base + t / 200 * overlay_spec base blend"

text \<open>
  An opaque gray pixel of value 128, and the adjustment vectors with temperature 100
  alone and with temperature 100 and saturation -100.
\<close>

definition grayImg :: surface where
  "grayImg = solid 1 1 (128 / 255, 128 / 255, 128 / 255, 1)"

definition adjWarm :: ManualAdjustments where
  "adjWarm = defaultAdjustments\<lparr>temperature := 100\<rparr>"

definition adjWarmDesat :: ManualAdjustments where
  "adjWarmDesat = defaultAdjustments\<lparr>temperature := 100, saturation := - 100\<rparr>"

text \<open>A snapshot of two pixels with the same colour, the first opaque, the second faint.\<close>

definition mixed8 :: image8 where
  "mixed8 = \<lparr>iwidth = 2, iheight = 1,
             ipixel = (\<lambda>x y. if x = 0 then (200, 100, 50, 255) else (200, 100, 50, 3))\<rparr>"

text \<open>
  A session with two edits in which a filter request is pending while the user undoes
  twice, and the state in which that request then settles with another image.
\<close>

definition url1 :: string where
  "url1 = ''data:image/png;base64,Qg==''"

definition fileFiltered :: jsfile where
  "fileFiltered =
     \<lparr>fname = ''filtered-0.png'', mime = ''image/png'', fbytes = [81, 81, 61, 61]\<rparr>"

definition fileAdjusted :: jsfile where
  "fileAdjusted =
     \<lparr>fname = ''adjusted-0.png'', mime = ''image/png'', fbytes = [81, 81, 61, 61]\<rparr>"

definition fileLate :: jsfile where
  "fileLate =
     \<lparr>fname = ''filtered-0.png'', mime = ''image/png'', fbytes = [81, 103, 61, 61]\<rparr>"

definition stateTwoEdits :: app_state where
  "stateTwoEdits = handleApplyAdjustment P0 (Fulfilled url0) stateEdited"

definition stateLoading :: app_state where
  "stateLoading = stateTwoEdits\<lparr>isLoading := True, error := None\<rparr>"

definition stateLoadingUndone :: app_state where
  "stateLoadingUndone = handleUndo (handleUndo stateLoading)"

definition stateLate :: app_state where
  "stateLate =
     handleApplyFilter_settle P0 (history stateTwoEdits) (historyIndex stateTwoEdits)
       (Fulfilled url1) stateLoadingUndone"

text \<open>
  A browser that resamples by taking the nearest source pixel, and a 1000 by 1000
  image, displayed at 500 by 500, whose columns left of 120 are red and the others blue.
\<close>

definition nearest ::
  "surface \<Rightarrow> rat \<times> rat \<times> rat \<times> rat \<Rightarrow> rat \<times> rat \<Rightarrow> nat \<Rightarrow> nat \<Rightarrow> rgba" where
  "nearest img src dst x y =
     (case (src, dst) of
        ((sx, sy, sw, sh), (dw, dh)) \<Rightarrow>
          pixel img (nat \<lfloor>sx + (of_nat x + 1 / 2) * sw / dw\<rfloor>)
                    (nat \<lfloor>sy + (of_nat y + 1 / 2) * sh / dh\<rfloor>))"

definition P1 :: platform where
  "P1 = P0\<lparr>resample := nearest\<rparr>"

definition imgSplit :: img_element where
  "imgSplit =
     \<lparr>bitmap = \<lparr>swidth = 1000, sheight = 1000,
                 pixel = (\<lambda>x y. if x < 120 then (1, 0, 0, 1) else (0, 0, 1, 1))\<rparr>,
      elWidth = 500, elHeight = 500, clientWidth = 500, clientHeight = 500\<rparr>"


section \<open>Auxiliary facts\<close>

lemma floor_rat_numeral [simp]:
  "\<lfloor>(numeral a :: rat) / numeral b\<rfloor> = numeral a div numeral b"
  using floor_divide_of_int_eq [of "numeral a" "numeral b", where ?'a = rat] by simp

lemma floor_rat_one_numeral [simp]:
  "\<lfloor>(1 :: rat) / numeral b\<rfloor> = 1 div numeral b"
  using floor_divide_of_int_eq [of 1 "numeral b", where ?'a = rat] by simp

lemma source_over_transparent [simp]: "source_over p transparent = p"
  by (cases p) (simp add: transparent_def)

lemma js_slice_prefix:
  "0 \<le> i \<Longrightarrow> i \<le> int (length xs) \<Longrightarrow> js_slice xs 0 i = take (nat i) xs"
  by (simp add: js_slice_def Let_def min_def)

lemma contain_fit_1000x500:
  "contain_fit 1000 500 400 400 = (Num 400, Num 200, Num 0, Num 100)"
  by (simp add: contain_fit_def Let_def jgt_def jsub_def)

lemma img1000x500_sizes [simp]:
  "naturalWidth img1000x500 = 1000" "naturalHeight img1000x500 = 500"
  "clientWidth img1000x500 = 400" "clientHeight img1000x500 = 400"
  by (simp_all add: img1000x500_def naturalWidth_def naturalHeight_def newCanvas_def)

lemma P0_fields [simp]:
  "dateNow P0 = ''0''" "createObjectURL P0 f = ''blob:'' @ fname f" "hasContext2d P0"
  by (simp_all add: P0_def)

lemma file_type_png [simp]: "file_type ''image/png'' = ''image/png''"
  by (simp add: file_type_def ascii_lower_def)

lemma dataURLtoFile_url0:
  "dataURLtoFile P0 url0 n = Inr \<lparr>fname = n, mime = ''image/png'', fbytes = [81, 81, 61, 61]\<rparr>"
  by (simp add: dataURLtoFile_def url0_def P0_def Let_def line_terminator_def)

lemma stateProps_eval:
  "propImages stateProps = [fileB]" "propImageUrls stateProps = [''blob:B'']"
  "history stateProps = [fileA]" "historyIndex stateProps = 0"
  "prompt stateProps = ''add a hat''" "editHotspot stateProps = Some (Num 500, Num 0)"
  by (simp_all add: stateProps_def handlePropImageSelect_def handleFileSelect_def
      handleImageUpload_def handleClearAllPropImages_def initialState_def handleImageClick_def
      contain_fit_1000x500 click_at_def Let_def jgt_def jsub_def fileB_def)

lemma stateProps_begin:
  "handleGenerate_begin stateProps = Some (stateProps\<lparr>isLoading := True, error := None\<rparr>)"
  by (simp add: handleGenerate_begin_def stateProps_eval currentImage_def js_index_def
      trim_empty_def js_whitespace_def)

lemma stateEdited_eval:
  "history stateEdited
     = [fileA, \<lparr>fname = ''filtered-0.png'', mime = ''image/png'', fbytes = [81, 81, 61, 61]\<rparr>]"
  "historyIndex stateEdited = 1"
  by (simp_all add: stateEdited_def handleApplyFilter_def handleApplyFilter_begin_def
      handleApplyFilter_settle_def request_result_def dataURLtoFile_url0 Let_def
      handleFileSelect_def handleImageUpload_def handleClearAllPropImages_def initialState_def
      currentImage_def js_index_def addImageToHistory_def js_slice_def)

lemma stateUndone_eval:
  "history stateUndone = history stateEdited" "historyIndex stateUndone = 0"
  by (simp_all add: stateUndone_def handleUndo_def canUndo_def stateEdited_eval)

lemma reachable_stateEdited: "reachable stateEdited"
proof -
  let ?s = "handleFileSelect (Some [fileA]) initialState"
  have r: "reachable ?s"
    by (rule reachable.file_select [OF reachable.init])
  have b: "handleApplyFilter_begin ?s = Some (?s\<lparr>isLoading := True, error := None\<rparr>)"
    by (simp add: handleApplyFilter_begin_def handleFileSelect_def handleImageUpload_def
        handleClearAllPropImages_def initialState_def currentImage_def js_index_def)
  have "reachable (?s\<lparr>isLoading := True, error := None\<rparr>)"
    by (rule reachable.filter_begin [OF r b])
  then have "reachable (handleApplyFilter_settle P0 (history ?s) (historyIndex ?s)
                (Fulfilled url0) (?s\<lparr>isLoading := True, error := None\<rparr>))"
    by (rule reachable.filter_settle [OF r])
  then show ?thesis
    by (simp add: stateEdited_def handleApplyFilter_def b)
qed

lemma reachable_stateUndone: "reachable stateUndone"
  unfolding stateUndone_def by (rule reachable.undo [OF reachable_stateEdited])

text \<open>Whether the request fails does not depend on the name chosen for the file.\<close>

lemma request_result_failure_name:
  "request_result P r n = Inl e \<Longrightarrow> request_result P r n' = Inl e"
  by (auto simp: request_result_def dataURLtoFile_def Let_def
      split: settled.splits option.splits sum.splits if_splits)

text \<open>The cursor of a reachable state is \<open>-1\<close> or an index of the history.\<close>

lemma reachable_cursor:
  "reachable s \<Longrightarrow> - 1 \<le> historyIndex s \<and> historyIndex s < int (length (history s))"
proof (induction rule: reachable.induct)
  case init
  then show ?case by (simp add: initialState_def)
next
  case (ui s e)
  then show ?case by (cases e) simp_all
next
  case (file_select s files)
  then show ?case
    by (auto simp: handleFileSelect_def handleImageUpload_def handleClearAllPropImages_def
        split: option.splits list.splits)
next
  case (click s ev containerRect)
  then show ?case
    by (auto simp: handleImageClick_def Let_def split: prod.splits)
next
  case (generate_settle c s P r)
  then show ?case
    by (auto simp: handleGenerate_settle_def addImageToHistory_def Let_def
        handleClearAllPropImages_def split: sum.splits)
next
  case (manual c s P img)
  then show ?case
    by (auto simp: handleApplyManualAdjustment_def addImageToHistory_def Let_def
        split: sum.splits)
next
  case (crop s P imgRef)
  then show ?case
    by (auto simp: handleApplyCrop_def addImageToHistory_def Let_def
        split: sum.splits option.splits)
next
  case (restore s P displayCanvasRef)
  then show ?case
    by (auto simp: handleApplyRestore_def addImageToHistory_def Let_def
        split: sum.splits option.splits)
qed (auto simp: dismissError_def handleUploadNew_def handleClearAllPropImages_def
      handleUndo_def handleRedo_def handleReset_def canUndo_def canRedo_def
      handlePropImageSelect_def handlePropDrop_def handleRemovePropImage_def
      handleGenerate_begin_def handleApplyFilter_begin_def handleApplyAdjustment_begin_def
      handleApplyFilter_settle_def handleApplyAdjustment_settle_def addImageToHistory_def Let_def
      split: option.splits if_splits sum.splits)

section \<open>History: appending\<close>

text \<open>
  An append that runs in the render whose history and cursor it captured (crop and
  restore always do, a request does when nothing happens before it settles): with the
  cursor \<open>i\<close> inside the history it keeps the snapshots \<open>0..i\<close>, pushes the new one and
  puts the cursor on it. After an undo it therefore drops the snapshot the cursor came
  from and everything behind it.
\<close>

lemma append_in_current_render:
  assumes "0 \<le> historyIndex s" and "historyIndex s \<le> int (length (history s)) - 1"
  shows "history (addImageToHistory (history s) (historyIndex s) f s)
           = take (nat (historyIndex s) + 1) (history s) @ [f]
       \<and> historyIndex (addImageToHistory (history s) (historyIndex s) f s)
           = historyIndex s + 1
       \<and> historyIndex (addImageToHistory (history s) (historyIndex s) f s)
           = int (length (history (addImageToHistory (history s) (historyIndex s) f s))) - 1
       \<and> (canUndo s \<longrightarrow>
           history (addImageToHistory (history (handleUndo s)) (historyIndex (handleUndo s)) f
                      (handleUndo s))
             = take (nat (historyIndex s)) (history s) @ [f]
           \<and> historyIndex (addImageToHistory (history (handleUndo s))
                             (historyIndex (handleUndo s)) f (handleUndo s))
             = historyIndex s)"
proof -
  have pre: "js_slice (history s) 0 (historyIndex s + 1)
               = take (nat (historyIndex s) + 1) (history s)"
    using assms by (simp add: js_slice_prefix nat_add_distrib)
  have a: "history (addImageToHistory (history s) (historyIndex s) f s)
          = take (nat (historyIndex s) + 1) (history s) @ [f]"
    using pre by (simp add: addImageToHistory_def Let_def)
  have b: "historyIndex (addImageToHistory (history s) (historyIndex s) f s)
          = historyIndex s + 1"
    using pre assms by (auto simp add: addImageToHistory_def Let_def min_def)
  have c: "historyIndex (addImageToHistory (history s) (historyIndex s) f s)
          = int (length (history (addImageToHistory (history s) (historyIndex s) f s))) - 1"
    by (simp add: addImageToHistory_def Let_def)
  have d: "history (addImageToHistory (history (handleUndo s)) (historyIndex (handleUndo s)) f
                   (handleUndo s))
          = take (nat (historyIndex s)) (history s) @ [f]
        \<and> historyIndex (addImageToHistory (history (handleUndo s))
                          (historyIndex (handleUndo s)) f (handleUndo s))
          = historyIndex s"
    if "canUndo s"
  proof -
    have "js_slice (history s) 0 (historyIndex s - 1 + 1) = take (nat (historyIndex s)) (history s)"
      using assms by (simp add: js_slice_prefix)
    then show ?thesis
      using that assms
      by (auto simp add: addImageToHistory_def handleUndo_def canUndo_def Let_def min_def)
  qed
  from a b c d show ?thesis by blast
qed

lemma append_in_current_render_example:
  "0 \<le> historyIndex stateABC
   \<and> historyIndex stateABC \<le> int (length (history stateABC)) - 1
   \<and> canUndo stateABC
   \<and> historyIndex (handleUndo stateABC) = 1
   \<and> history (addImageToHistory (history (handleUndo stateABC))
                 (historyIndex (handleUndo stateABC)) fileD (handleUndo stateABC))
       = [fileA, fileB, fileD]
   \<and> historyIndex (addImageToHistory (history (handleUndo stateABC))
                      (historyIndex (handleUndo stateABC)) fileD (handleUndo stateABC)) = 2
   \<and> fileC \<notin> set (history (addImageToHistory (history (handleUndo stateABC))
                            (historyIndex (handleUndo stateABC)) fileD (handleUndo stateABC)))"
proof -
  have h: "0 \<le> historyIndex stateABC"
    "historyIndex stateABC \<le> int (length (history stateABC)) - 1"
    by (simp_all add: stateABC_def initialState_def)
  have u: "canUndo stateABC"
    by (simp add: canUndo_def stateABC_def initialState_def)
  have k: "historyIndex (handleUndo stateABC) = 1"
    by (simp add: handleUndo_def canUndo_def stateABC_def initialState_def)
  have neq: "fileC \<notin> set [fileA, fileB, fileD]"
    by (simp add: fileA_def fileB_def fileC_def fileD_def)
  from append_in_current_render [OF h, of fileD] u
  have "history (addImageToHistory (history (handleUndo stateABC))
                 (historyIndex (handleUndo stateABC)) fileD (handleUndo stateABC))
          = take (nat (historyIndex stateABC)) (history stateABC) @ [fileD]"
    and "historyIndex (addImageToHistory (history (handleUndo stateABC))
                      (historyIndex (handleUndo stateABC)) fileD (handleUndo stateABC))
          = historyIndex stateABC"
    by blast+
  then show ?thesis
    using h u k neq by (simp add: stateABC_def initialState_def)
qed


text \<open>
  In general the append works on the captured history \<open>h\<close> and cursor \<open>i\<close>, whatever
  the history and the cursor of the state are by then.
\<close>

lemma append_uses_captured_history:
  assumes "0 \<le> i" and "i < int (length h)"
  shows "history (addImageToHistory h i f s) = take (nat i + 1) h @ [f]"
    and "historyIndex (addImageToHistory h i f s) = i + 1"
proof -
  have pre: "js_slice h 0 (i + 1) = take (nat i + 1) h"
    using assms by (simp add: js_slice_prefix nat_add_distrib)
  show "history (addImageToHistory h i f s) = take (nat i + 1) h @ [f]"
    using pre by (simp add: addImageToHistory_def Let_def)
  show "historyIndex (addImageToHistory h i f s) = i + 1"
    using pre assms by (auto simp add: addImageToHistory_def Let_def min_def)
qed

lemma dataURLtoFile_url1:
  "dataURLtoFile P0 url1 n = Inr \<lparr>fname = n, mime = ''image/png'', fbytes = [81, 103, 61, 61]\<rparr>"
  by (simp add: dataURLtoFile_def url1_def P0_def Let_def line_terminator_def)

lemma stateTwoEdits_eval:
  "history stateTwoEdits = [fileA, fileFiltered, fileAdjusted]" "historyIndex stateTwoEdits = 2"
  by (simp_all add: stateTwoEdits_def handleApplyAdjustment_def handleApplyAdjustment_begin_def
      handleApplyAdjustment_settle_def request_result_def dataURLtoFile_url0 stateEdited_eval
      currentImage_def js_index_def addImageToHistory_def js_slice_def Let_def
      fileFiltered_def fileAdjusted_def)

lemma stateLoading_begin: "handleApplyFilter_begin stateTwoEdits = Some stateLoading"
  by (simp add: handleApplyFilter_begin_def stateLoading_def currentImage_def js_index_def
      stateTwoEdits_eval)

lemma stateLoadingUndone_eval:
  "history stateLoadingUndone = [fileA, fileFiltered, fileAdjusted]"
  "historyIndex stateLoadingUndone = 0"
  by (simp_all add: stateLoadingUndone_def stateLoading_def handleUndo_def canUndo_def
      stateTwoEdits_eval)

lemma stateLate_eval:
  "history stateLate = [fileA, fileFiltered, fileAdjusted, fileLate]" "historyIndex stateLate = 3"
  by (simp_all add: stateLate_def handleApplyFilter_settle_def request_result_def
      dataURLtoFile_url1 addImageToHistory_def js_slice_def Let_def stateTwoEdits_eval
      fileLate_def)

lemma reachable_stateTwoEdits: "reachable stateTwoEdits"
proof -
  have b: "handleApplyAdjustment_begin stateEdited
             = Some (stateEdited\<lparr>isLoading := True, error := None\<rparr>)"
    by (simp add: handleApplyAdjustment_begin_def currentImage_def js_index_def stateEdited_eval)
  have "reachable (stateEdited\<lparr>isLoading := True, error := None\<rparr>)"
    by (rule reachable.adjustment_begin [OF reachable_stateEdited b])
  then have "reachable (handleApplyAdjustment_settle P0 (history stateEdited)
                (historyIndex stateEdited) (Fulfilled url0)
                (stateEdited\<lparr>isLoading := True, error := None\<rparr>))"
    by (rule reachable.adjustment_settle [OF reachable_stateEdited])
  then show ?thesis
    by (simp add: stateTwoEdits_def handleApplyAdjustment_def b)
qed

lemma reachable_stateLate: "reachable stateLate"
proof -
  have "reachable stateLoading"
    by (rule reachable.filter_begin [OF reachable_stateTwoEdits stateLoading_begin])
  then have "reachable stateLoadingUndone"
    unfolding stateLoadingUndone_def by (intro reachable.undo)
  then show ?thesis
    unfolding stateLate_def by (rule reachable.filter_settle [OF reachable_stateTwoEdits])
qed

text \<open>
  C1 on the code. With the history [A, F, J] at cursor 2 a filter request starts; while
  it is pending the user undoes twice, which the undo button allows, so that the cursor
  is 0 when the request settles. The claim asks for the history [A, new] at cursor 1.
  The append of the settling handler still holds the history and the cursor of the
  render that started the request: the history becomes [A, F, J, new] at cursor 3, the
  two undone snapshots are kept and the undo is lost.
\<close>

theorem late_append_ignores_undo:
  "handleApplyFilter_begin stateTwoEdits = Some stateLoading
   \<and> history stateLoading = [fileA, fileFiltered, fileAdjusted]
   \<and> historyIndex stateLoading = 2
   \<and> history stateLoadingUndone = [fileA, fileFiltered, fileAdjusted]
   \<and> historyIndex stateLoadingUndone = 0
   \<and> reachable stateLate
   \<and> history stateLate = [fileA, fileFiltered, fileAdjusted, fileLate]
   \<and> historyIndex stateLate = 3
   \<and> history stateLate
       \<noteq> take (nat (historyIndex stateLoadingUndone) + 1) (history stateLoadingUndone)
          @ [fileLate]
   \<and> historyIndex stateLate \<noteq> historyIndex stateLoadingUndone + 1"
  using reachable_stateLate stateLoading_begin
  by (simp add: stateLate_eval stateLoadingUndone_eval stateLoading_def stateTwoEdits_eval)

text \<open>
  C10. Appending a snapshot also resets the manual adjustments to the default, whose
  eleven fields are zero, and clears both crop rectangles. Apart from the history, the
  cursor and these three cells the state is the one before the append; in particular
  the prompt, the brush size and opacity and the active tab are unchanged.
\<close>

theorem append_resets_adjustments_and_crop:
  "adjustments (addImageToHistory h i f s) = defaultAdjustments
   \<and> temperature defaultAdjustments = 0 \<and> tint defaultAdjustments = 0
   \<and> exposure defaultAdjustments = 0 \<and> contrast defaultAdjustments = 0
   \<and> highlights defaultAdjustments = 0 \<and> shadows defaultAdjustments = 0
   \<and> whites defaultAdjustments = 0 \<and> blacks defaultAdjustments = 0
   \<and> clarity defaultAdjustments = 0 \<and> vibrance defaultAdjustments = 0
   \<and> saturation defaultAdjustments = 0
   \<and> crop (addImageToHistory h i f s) = None
   \<and> completedCrop (addImageToHistory h i f s) = None
   \<and> addImageToHistory h i f s =
       s\<lparr>history := history (addImageToHistory h i f s),
         historyIndex := historyIndex (addImageToHistory h i f s),
         crop := None, completedCrop := None, adjustments := defaultAdjustments\<rparr>
   \<and> prompt (addImageToHistory h i f s) = prompt s
   \<and> brushSize (addImageToHistory h i f s) = brushSize s
   \<and> brushOpacity (addImageToHistory h i f s) = brushOpacity s
   \<and> activeTab (addImageToHistory h i f s) = activeTab s"
  by (simp add: addImageToHistory_def Let_def defaultAdjustments_def)

theorem append_resets_adjustments_and_crop_witness:
  "adjustments (addImageToHistory [fileA] 0 fileB
      (stateProps\<lparr>adjustments := defaultAdjustments\<lparr>temperature := 40\<rparr>,
                  completedCrop := Some \<lparr>cx = Num 1, cy = Num 1, cwidth = Num 5, cheight = Num 5\<rparr>\<rparr>))
     = defaultAdjustments
   \<and> completedCrop (addImageToHistory [fileA] 0 fileB
      (stateProps\<lparr>adjustments := defaultAdjustments\<lparr>temperature := 40\<rparr>,
                  completedCrop := Some \<lparr>cx = Num 1, cy = Num 1, cwidth = Num 5, cheight = Num 5\<rparr>\<rparr>))
     = None
   \<and> prompt (addImageToHistory [fileA] 0 fileB
      (stateProps\<lparr>adjustments := defaultAdjustments\<lparr>temperature := 40\<rparr>,
                  completedCrop := Some \<lparr>cx = Num 1, cy = Num 1, cwidth = Num 5, cheight = Num 5\<rparr>\<rparr>))
     = ''add a hat''"
  using append_resets_adjustments_and_crop [of "[fileA]" 0 fileB
      "stateProps\<lparr>adjustments := defaultAdjustments\<lparr>temperature := 40\<rparr>,
                  completedCrop := Some \<lparr>cx = Num 1, cy = Num 1, cwidth = Num 5, cheight = Num 5\<rparr>\<rparr>"]
  by (simp add: stateProps_eval)

section \<open>Requests that fail\<close>

text \<open>
  C5. When a request to the generative service fails (the promise rejects, or the
  data URL it delivers cannot be decoded), each of the three handlers, whatever the
  captured history and whatever the state it settles on, leaves the history and the
  cursor as they are and stores the message of the failure in the error cell; the
  same holds for the handler run without interruption. Dismissing the error empties
  the error cell and touches neither history nor cursor.
\<close>

theorem failed_request_leaves_history:
  assumes "request_result P r n = Inl e"
  shows "history (handleGenerate_settle P h i r s) = history s
       \<and> historyIndex (handleGenerate_settle P h i r s) = historyIndex s
       \<and> error (handleGenerate_settle P h i r s) = Some (error_message e)
       \<and> history (handleApplyFilter_settle P h i r s) = history s
       \<and> historyIndex (handleApplyFilter_settle P h i r s) = historyIndex s
       \<and> error (handleApplyFilter_settle P h i r s) = Some (error_message e)
       \<and> history (handleApplyAdjustment_settle P h i r s) = history s
       \<and> historyIndex (handleApplyAdjustment_settle P h i r s) = historyIndex s
       \<and> error (handleApplyAdjustment_settle P h i r s) = Some (error_message e)
       \<and> history (handleGenerate P r s) = history s
       \<and> historyIndex (handleGenerate P r s) = historyIndex s
       \<and> (handleGenerate_begin s \<noteq> None
            \<longrightarrow> error (handleGenerate P r s) = Some (error_message e))
       \<and> history (handleApplyFilter P r s) = history s
       \<and> historyIndex (handleApplyFilter P r s) = historyIndex s
       \<and> (currentImage s \<noteq> None
            \<longrightarrow> error (handleApplyFilter P r s) = Some (error_message e))
       \<and> history (handleApplyAdjustment P r s) = history s
       \<and> historyIndex (handleApplyAdjustment P r s) = historyIndex s
       \<and> (currentImage s \<noteq> None
            \<longrightarrow> error (handleApplyAdjustment P r s) = Some (error_message e))
       \<and> error (dismissError t) = None
       \<and> history (dismissError t) = history t
       \<and> historyIndex (dismissError t) = historyIndex t"
proof -
  have g: "request_result P r (''edited-'' @ dateNow P @ ''.png'') = Inl e"
    and f: "request_result P r (''filtered-'' @ dateNow P @ ''.png'') = Inl e"
    and a: "request_result P r (''adjusted-'' @ dateNow P @ ''.png'') = Inl e"
    using assms by (rule request_result_failure_name)+
  have gs: "handleGenerate_settle P h' i' r s' = s'\<lparr>error := Some (error_message e), isLoading := False\<rparr>"
    for h' i' s'
    using g by (simp add: handleGenerate_settle_def)
  have fs: "handleApplyFilter_settle P h' i' r s' = s'\<lparr>error := Some (error_message e), isLoading := False\<rparr>"
    for h' i' s'
    using f by (simp add: handleApplyFilter_settle_def)
  have as: "handleApplyAdjustment_settle P h' i' r s' = s'\<lparr>error := Some (error_message e), isLoading := False\<rparr>"
    for h' i' s'
    using a by (simp add: handleApplyAdjustment_settle_def)
  show ?thesis
    by (simp add: gs fs as handleGenerate_def handleApplyFilter_def handleApplyAdjustment_def
        handleGenerate_begin_def handleApplyFilter_begin_def handleApplyAdjustment_begin_def
        dismissError_def)
qed

theorem failed_request_leaves_history_witness:
  "request_result P0 (Rejected (ErrorObj ''Service unavailable'')) [] = Inl (ErrorObj ''Service unavailable'')
   \<and> handleGenerate_begin stateProps \<noteq> None
   \<and> history (handleGenerate P0 (Rejected (ErrorObj ''Service unavailable'')) stateProps) = [fileA]
   \<and> historyIndex (handleGenerate P0 (Rejected (ErrorObj ''Service unavailable'')) stateProps) = 0
   \<and> error (handleGenerate P0 (Rejected (ErrorObj ''Service unavailable'')) stateProps)
       = Some ''Service unavailable''
   \<and> request_result P0 (Fulfilled ''no data'') [] = Inl (ErrorObj ''Invalid data URL'')
   \<and> currentImage stateABC \<noteq> None
   \<and> history (handleApplyFilter P0 (Fulfilled ''no data'') stateABC) = [fileA, fileB, fileC]
   \<and> historyIndex (handleApplyFilter P0 (Fulfilled ''no data'') stateABC) = 2
   \<and> error (handleApplyFilter P0 (Fulfilled ''no data'') stateABC) = Some ''Invalid data URL''"
proof -
  have r1: "request_result P0 (Rejected (ErrorObj ''Service unavailable'')) []
              = Inl (ErrorObj ''Service unavailable'')"
    by (simp add: request_result_def)
  have r2: "request_result P0 (Fulfilled ''no data'') [] = Inl (ErrorObj ''Invalid data URL'')"
    by (simp add: request_result_def dataURLtoFile_def)
  have b: "handleGenerate_begin stateProps \<noteq> None"
    by (simp add: stateProps_begin)
  have c: "currentImage stateABC \<noteq> None"
    by (simp add: currentImage_def js_index_def stateABC_def initialState_def)
  show ?thesis
    using failed_request_leaves_history [OF r1, where s = stateProps]
      failed_request_leaves_history [OF r2, where s = stateABC] r1 r2 b c
    by (simp add: stateProps_eval stateABC_def initialState_def)
qed

section \<open>Prop images\<close>

text \<open>
  C4, as the code has it. The prop images and their URLs are emptied when a localized
  edit succeeds, when a base image is loaded and when the session is reset for a new
  upload. When the request fails, the \<^verbatim>\<open>catch\<close> branch only stores the message: the
  prop images stay as they are.
\<close>

theorem props_cleared_on_success_kept_on_failure:
  "(request_result P r (''edited-'' @ dateNow P @ ''.png'') = Inr f
      \<longrightarrow> propImages (handleGenerate_settle P h i r s) = []
          \<and> propImageUrls (handleGenerate_settle P h i r s) = [])
   \<and> (request_result P r (''edited-'' @ dateNow P @ ''.png'') = Inl e
      \<longrightarrow> propImages (handleGenerate_settle P h i r s) = propImages s
          \<and> propImageUrls (handleGenerate_settle P h i r s) = propImageUrls s)
   \<and> propImages (handleImageUpload g s) = []
   \<and> propImageUrls (handleImageUpload g s) = []
   \<and> propImages (handleUploadNew s) = []
   \<and> propImageUrls (handleUploadNew s) = []"
  by (simp add: handleGenerate_settle_def handleClearAllPropImages_def handleImageUpload_def
      handleUploadNew_def addImageToHistory_def Let_def)

theorem props_cleared_on_success_kept_on_failure_witness:
  "request_result P0 (Fulfilled url0) (''edited-'' @ dateNow P0 @ ''.png'')
     = Inr \<lparr>fname = ''edited-0.png'', mime = ''image/png'', fbytes = [81, 81, 61, 61]\<rparr>
   \<and> propImages stateProps = [fileB]
   \<and> propImages (handleGenerate_settle P0 [fileA] 0 (Fulfilled url0) stateProps) = []
   \<and> request_result P0 (Rejected OtherThrown) (''edited-'' @ dateNow P0 @ ''.png'') = Inl OtherThrown
   \<and> propImages (handleGenerate_settle P0 [fileA] 0 (Rejected OtherThrown) stateProps) = [fileB]
   \<and> propImages (handleImageUpload fileC stateProps) = []"
proof -
  have ok: "request_result P0 (Fulfilled url0) (''edited-'' @ dateNow P0 @ ''.png'')
              = Inr \<lparr>fname = ''edited-0.png'', mime = ''image/png'', fbytes = [81, 81, 61, 61]\<rparr>"
    by (simp add: request_result_def dataURLtoFile_url0)
  have ko: "request_result P0 (Rejected OtherThrown) (''edited-'' @ dateNow P0 @ ''.png'')
              = Inl OtherThrown"
    by (simp add: request_result_def)
  show ?thesis
    using props_cleared_on_success_kept_on_failure [where P = P0 and r = "Fulfilled url0"
        and f = "\<lparr>fname = ''edited-0.png'', mime = ''image/png'', fbytes = [81, 81, 61, 61]\<rparr>"
        and h = "[fileA]" and i = 0 and s = stateProps and g = fileC]
      props_cleared_on_success_kept_on_failure [where P = P0 and r = "Rejected OtherThrown"
        and e = OtherThrown and h = "[fileA]" and i = 0 and s = stateProps] ok ko
    by (simp add: stateProps_eval)
qed

text \<open>
  C4 as stated fails: with one prop image attached, a rejected request leaves that
  prop image in place.
\<close>

theorem props_kept_after_failed_request:
  "handleGenerate_begin stateProps \<noteq> None
   \<and> propImages stateProps = [fileB]
   \<and> propImages (handleGenerate P0 (Rejected (ErrorObj ''Service unavailable'')) stateProps)
       = [fileB]
   \<and> propImages (handleGenerate P0 (Rejected (ErrorObj ''Service unavailable'')) stateProps)
       \<noteq> []
   \<and> error (handleGenerate P0 (Rejected (ErrorObj ''Service unavailable'')) stateProps)
       = Some ''Service unavailable''"
  by (simp add: handleGenerate_def stateProps_begin handleGenerate_settle_def
      request_result_def stateProps_eval)

section \<open>Availability of the restore tab\<close>

text \<open>
  C7, as the code has it. In every reachable state the restore tab can be selected
  exactly when the cursor is past the original snapshot (undo is available). Hence it
  can be selected only if the history holds more than the original snapshot, and it
  cannot be selected while the history holds no edit.
\<close>

theorem restore_selectable_iff_cursor_past_original:
  assumes "reachable s"
  shows "(\<not> tab_disabled s Restore) = (0 < historyIndex s)
       \<and> (\<not> tab_disabled s Restore \<longrightarrow> 1 < length (history s))
       \<and> (length (history s) \<le> 1 \<longrightarrow> tab_disabled s Restore)"
  using reachable_cursor [OF assms] by (auto simp: tab_disabled_def canUndo_def)

theorem restore_selectable_iff_cursor_past_original_witness:
  "reachable stateEdited
   \<and> \<not> tab_disabled stateEdited Restore
   \<and> 0 < historyIndex stateEdited
   \<and> 1 < length (history stateEdited)
   \<and> reachable initialState
   \<and> length (history initialState) \<le> 1
   \<and> tab_disabled initialState Restore"
  using restore_selectable_iff_cursor_past_original [OF reachable_stateEdited]
    restore_selectable_iff_cursor_past_original [OF reachable.init]
    reachable_stateEdited reachable.init
  by (simp add: stateEdited_eval initialState_def)

text \<open>
  C7 as stated fails: after one edit and one undo the history holds an edit, yet the
  restore tab is disabled.
\<close>

theorem restore_disabled_although_edit_exists:
  "reachable stateUndone
   \<and> length (history stateUndone) = 2
   \<and> tab_disabled stateUndone Restore
   \<and> \<not> ((\<not> tab_disabled stateUndone Restore) = (1 < length (history stateUndone)))"
  using reachable_stateUndone
  by (simp add: stateUndone_eval stateEdited_eval tab_disabled_def canUndo_def)

section \<open>Mapping a click to a natural pixel\<close>

text \<open>
  C6. For a natural size of 1000 by 500 in a box of 400 by 400 the rendered image is
  400 by 200 with horizontal offset 0 and vertical offset 100. In retouch mode a
  click at (200, 100) of the box sets the hotspot to the natural pixel (500, 0), which
  is the rounded product of the offset-corrected position and natural/rendered; a
  click at (0, 0) lies in the letterbox band and clears both hotspots.
\<close>

theorem hotspot_mapping_example:
  "contain_fit 1000 500 400 400 = (Num 400, Num 200, Num 0, Num 100)
   \<and> editHotspot (handleImageClick (click_at 200 100) (Some (30, 20)) (s\<lparr>activeTab := Retouch\<rparr>))
       = Some (Num 500, Num 0)
   \<and> Num 500 = jround (jmul (jsub (Num 200) (Num 0)) (jdiv (Num 1000) (Num 400)))
   \<and> Num 0 = jround (jmul (jsub (Num 100) (Num 100)) (jdiv (Num 500) (Num 200)))
   \<and> editHotspot (handleImageClick (click_at 0 0) (Some (30, 20)) (s\<lparr>activeTab := Retouch\<rparr>))
       = None
   \<and> displayHotspot (handleImageClick (click_at 0 0) (Some (30, 20)) (s\<lparr>activeTab := Retouch\<rparr>))
       = None"
  by (simp add: handleImageClick_def contain_fit_1000x500 click_at_def Let_def jgt_def jsub_def)

theorem hotspot_mapping_example_witness:
  "editHotspot (handleImageClick (click_at 200 100) (Some (30, 20))
       (initialState\<lparr>activeTab := Retouch\<rparr>)) = Some (Num 500, Num 0)
   \<and> editHotspot stateProps = Some (Num 500, Num 0)
   \<and> editHotspot (handleImageClick (click_at 0 0) (Some (30, 20))
       (stateProps\<lparr>activeTab := Retouch\<rparr>)) = None
   \<and> displayHotspot (handleImageClick (click_at 0 0) (Some (30, 20))
       (stateProps\<lparr>activeTab := Retouch\<rparr>)) = None"
proof -
  have "editHotspot (handleImageClick (click_at 200 100) (Some (30, 20))
          (initialState\<lparr>activeTab := Retouch\<rparr>)) = Some (Num 500, Num 0)"
    using hotspot_mapping_example [of initialState] by blast
  moreover have "editHotspot (handleImageClick (click_at 0 0) (Some (30, 20))
          (stateProps\<lparr>activeTab := Retouch\<rparr>)) = None
      \<and> displayHotspot (handleImageClick (click_at 0 0) (Some (30, 20))
          (stateProps\<lparr>activeTab := Retouch\<rparr>)) = None"
    using hotspot_mapping_example [of stateProps] by blast
  ultimately show ?thesis
    using stateProps_eval(6) by blast
qed

section \<open>Crop extraction\<close>

lemma paint_dims [simp]:
  "swidth (paint op w h src cv) = swidth cv" "sheight (paint op w h src cv) = sheight cv"
  by (simp_all add: paint_def)

lemma drawImage9_dims [simp]:
  "swidth (drawImage9 P img args cv) = swidth cv"
  "sheight (drawImage9 P img args cv) = sheight cv"
  by (auto simp: drawImage9_def split: prod.splits option.splits)

lemma crop_canvas_dims:
  "swidth (crop_canvas P cc img) = canvas_dim 300 (cwidth cc)"
  "sheight (crop_canvas P cc img) = canvas_dim 150 (cheight cc)"
  by (simp_all add: crop_canvas_def Let_def newCanvas_def)

lemma canvas_dim_nat: "m \<le> 2147483647 \<Longrightarrow> canvas_dim d (Num (of_nat m)) = m"
  by (simp add: canvas_dim_def Let_def)

lemma img500_sizes [simp]:
  "naturalWidth img500 = 1000" "naturalHeight img500 = 1000"
  "elWidth img500 = 500" "elHeight img500 = 500"
  by (simp_all add: img500_def naturalWidth_def naturalHeight_def solid_def)

lemma imgSplit_sizes [simp]:
  "naturalWidth imgSplit = 1000" "naturalHeight imgSplit = 1000"
  "elWidth imgSplit = 500" "elHeight imgSplit = 500"
  by (simp_all add: imgSplit_def naturalWidth_def naturalHeight_def)

lemma crop_canvas_pixel:
  assumes "elWidth img \<noteq> 0" and "elHeight img \<noteq> 0"
    and "w * (of_nat (naturalWidth img) / of_nat (elWidth img)) \<noteq> 0"
    and "h * (of_nat (naturalHeight img) / of_nat (elHeight img)) \<noteq> 0"
    and "px < canvas_dim 300 (Num w)" and "py < canvas_dim 150 (Num h)"
  shows "pixel (crop_canvas P \<lparr>cx = Num x, cy = Num y, cwidth = Num w, cheight = Num h\<rparr> img)
             px py
           = resample P (bitmap img)
               (x * (of_nat (naturalWidth img) / of_nat (elWidth img)),
                y * (of_nat (naturalHeight img) / of_nat (elHeight img)),
                w * (of_nat (naturalWidth img) / of_nat (elWidth img)),
                h * (of_nat (naturalHeight img) / of_nat (elHeight img)))
               (w, h) px py"
  using assms
  by (simp add: crop_canvas_def crop_draw_def drawImage9_def Let_def paint_def newCanvas_def)

lemma nearest_first: "nearest (bitmap imgSplit) (20, 20, 200, 100) (100, 50) 0 0 = (1, 0, 0, 1)"
  by (simp add: nearest_def imgSplit_def)

lemma nearest_last: "nearest (bitmap imgSplit) (20, 20, 200, 100) (100, 50) 99 49 = (0, 0, 1, 1)"
  by (simp add: nearest_def imgSplit_def)

text \<open>
  C2, as the code has it. For a displayed rectangle \<open>(x, y, w, h)\<close> on an image whose
  displayed size is not zero, \<^verbatim>\<open>drawImage\<close> reads the natural-pixel rectangle
  \<open>(x * sx, y * sy, w * sx, h * sy)\<close> with \<open>sx = naturalW / displayedW\<close> and
  \<open>sy = naturalH / displayedH\<close>, and draws it into the destination \<open>(0, 0, w, h)\<close> of a
  canvas whose size is \<open>w\<close> by \<open>h\<close> as converted by the canvas: the output has the
  displayed size of the rectangle, \<open>w\<close> by \<open>h\<close> pixels when these are whole numbers
  below \<open>2^31\<close>, not its natural size. Where that natural rectangle is not empty, every
  pixel of the output is the pixel that the browser resamples from it for the
  destination size \<open>(w, h)\<close>.
\<close>

theorem crop_output_has_displayed_size:
  assumes "elWidth img \<noteq> 0" and "elHeight img \<noteq> 0"
  shows "crop_draw \<lparr>cx = Num x, cy = Num y, cwidth = Num w, cheight = Num h\<rparr> img
           = ((Num (x * (of_nat (naturalWidth img) / of_nat (elWidth img))),
               Num (y * (of_nat (naturalHeight img) / of_nat (elHeight img))),
               Num (w * (of_nat (naturalWidth img) / of_nat (elWidth img))),
               Num (h * (of_nat (naturalHeight img) / of_nat (elHeight img)))),
              (Num w, Num h))
       \<and> swidth (crop_canvas P \<lparr>cx = Num x, cy = Num y, cwidth = Num w, cheight = Num h\<rparr> img)
           = canvas_dim 300 (Num w)
       \<and> sheight (crop_canvas P \<lparr>cx = Num x, cy = Num y, cwidth = Num w, cheight = Num h\<rparr> img)
           = canvas_dim 150 (Num h)
       \<and> (w = of_nat m \<and> m \<le> 2147483647 \<longrightarrow>
            swidth (crop_canvas P \<lparr>cx = Num x, cy = Num y, cwidth = Num w, cheight = Num h\<rparr> img)
              = m)
       \<and> (h = of_nat n \<and> n \<le> 2147483647 \<longrightarrow>
            sheight (crop_canvas P \<lparr>cx = Num x, cy = Num y, cwidth = Num w, cheight = Num h\<rparr> img)
              = n)
       \<and> (w * (of_nat (naturalWidth img) / of_nat (elWidth img)) \<noteq> 0
          \<and> h * (of_nat (naturalHeight img) / of_nat (elHeight img)) \<noteq> 0
          \<and> px < canvas_dim 300 (Num w) \<and> py < canvas_dim 150 (Num h) \<longrightarrow>
            pixel (crop_canvas P \<lparr>cx = Num x, cy = Num y, cwidth = Num w, cheight = Num h\<rparr> img)
                px py
              = resample P (bitmap img)
                  (x * (of_nat (naturalWidth img) / of_nat (elWidth img)),
                   y * (of_nat (naturalHeight img) / of_nat (elHeight img)),
                   w * (of_nat (naturalWidth img) / of_nat (elWidth img)),
                   h * (of_nat (naturalHeight img) / of_nat (elHeight img)))
                  (w, h) px py)"
  using assms crop_canvas_pixel [OF assms, of w h px py P x y]
  by (simp add: crop_draw_def Let_def crop_canvas_dims canvas_dim_nat)

theorem crop_output_has_displayed_size_witness:
  "elWidth imgSplit \<noteq> 0 \<and> elHeight imgSplit \<noteq> 0
   \<and> crop_draw crop0 imgSplit = ((Num 20, Num 20, Num 200, Num 100), (Num 100, Num 50))
   \<and> swidth (crop_canvas P1 crop0 imgSplit) = 100
   \<and> sheight (crop_canvas P1 crop0 imgSplit) = 50
   \<and> pixel (crop_canvas P1 crop0 imgSplit) 0 0 = (1, 0, 0, 1)
   \<and> pixel (crop_canvas P1 crop0 imgSplit) 99 49 = (0, 0, 1, 1)"
proof -
  have h: "elWidth imgSplit \<noteq> 0" "elHeight imgSplit \<noteq> 0"
    by simp_all
  have r: "resample P1 = nearest"
    by (simp add: P1_def)
  have d: "canvas_dim 300 (Num 100) = 100" "canvas_dim 150 (Num 50) = 50"
    by (simp_all add: canvas_dim_def Let_def)
  have a: "crop_draw crop0 imgSplit = ((Num 20, Num 20, Num 200, Num 100), (Num 100, Num 50))
     \<and> swidth (crop_canvas P1 crop0 imgSplit) = 100
     \<and> sheight (crop_canvas P1 crop0 imgSplit) = 50
     \<and> pixel (crop_canvas P1 crop0 imgSplit) 0 0 = (1, 0, 0, 1)"
    using crop_output_has_displayed_size
      [OF h, where x = 10 and y = 10 and w = 100 and h = 50 and P = P1 and m = 100 and n = 50
         and px = 0 and py = 0]
    by (simp add: crop0_def r d nearest_first)
  have b: "pixel (crop_canvas P1 crop0 imgSplit) 99 49 = (0, 0, 1, 1)"
    using crop_output_has_displayed_size
      [OF h, where x = 10 and y = 10 and w = 100 and h = 50 and P = P1 and m = 100 and n = 50
         and px = 99 and py = 49]
    by (simp add: crop0_def r d nearest_last)
  from a b h show ?thesis by blast
qed

text \<open>
  C2 as stated fails on its own example: the rectangle (10, 10, 100, 50) on a 500 by
  500 display of a 1000 by 1000 image is read from the natural rectangle
  (20, 20, 200, 100), but the output is 100 by 50 pixels, not 200 by 100.
\<close>

theorem crop_output_not_natural_size:
  "swidth (crop_canvas P0 crop0 img500) = 100
   \<and> sheight (crop_canvas P0 crop0 img500) = 50
   \<and> (swidth (crop_canvas P0 crop0 img500), sheight (crop_canvas P0 crop0 img500))
       \<noteq> (200, 100)
   \<and> fst (crop_draw crop0 img500) = (Num 20, Num 20, Num 200, Num 100)"
  by (simp add: crop_canvas_dims crop0_def canvas_dim_def Let_def crop_draw_def)


section \<open>The mask compositor\<close>

lemma redraw_pixel:
  assumes "displayCanvas k = Some dc" "maskCanvas k = Some mc"
    "current k = Some cur" "previous k = Some prev" "hasContext2d P"
    "swidth cur = swidth dc" "sheight cur = sheight dc"
    "swidth prev = swidth dc" "sheight prev = sheight dc"
    "swidth mc = swidth dc" "sheight mc = sheight dc"
    "x < swidth dc" "y < sheight dc"
  shows "composite_pixel P k x y
           = Some (source_over (destination_in (pixel mc x y) (pixel prev x y)) (pixel cur x y))"
    and "map_option swidth (displayCanvas (redrawComposite P k)) = Some (swidth dc)"
    and "map_option sheight (displayCanvas (redrawComposite P k)) = Some (sheight dc)"
  using assms
  by (simp_all add: composite_pixel_def redrawComposite_def Let_def scaled_def paint_def
      clearRect_def newCanvas_def)

lemma session_fields [simp]:
  "displayCanvas (restore_session p m) = Some (newCanvas 1 1)"
  "maskCanvas (restore_session p m) = Some m"
  "current (restore_session p m) = Some curRed"
  "previous (restore_session p m) = Some p"
  by (simp_all add: restore_session_def)

lemma solid_fields [simp]:
  "swidth (solid w h p) = w" "sheight (solid w h p) = h" "pixel (solid w h p) x y = p"
  by (simp_all add: solid_def)

lemma newCanvas_fields [simp]:
  "swidth (newCanvas w h) = w" "sheight (newCanvas w h) = h"
  by (simp_all add: newCanvas_def)

text \<open>
  C3, as the code has it. With the two images and the mask at the size of the visible
  canvas, every composite pixel is the previous pixel weighted by the mask alpha \<open>m\<close>
  drawn over the current pixel: \<open>m * previous + (1 - m * pa) * current\<close> on
  premultiplied pixels, \<open>pa\<close> the alpha of the previous pixel. Where the previous pixel
  is opaque this is the linear interpolation of previous and current with weight \<open>m\<close>;
  under a transparent mask the composite is the current pixel; under an opaque mask
  it is the previous pixel where that one is opaque.
\<close>

theorem recompose_blends_previous_over_current:
  assumes "displayCanvas k = Some dc" and "maskCanvas k = Some mc"
    and "current k = Some cur" and "previous k = Some prev" and "hasContext2d P"
    and "swidth cur = swidth dc" and "sheight cur = sheight dc"
    and "swidth prev = swidth dc" and "sheight prev = sheight dc"
    and "swidth mc = swidth dc" and "sheight mc = sheight dc"
    and "x < swidth dc" and "y < sheight dc"
    and "pixel prev x y = (pr, pg, pb, pa)" and "pixel cur x y = (cr, cg, cb, ca)"
    and "alpha (pixel mc x y) = m"
  shows "map_option swidth (displayCanvas (redrawComposite P k)) = Some (swidth dc)
       \<and> map_option sheight (displayCanvas (redrawComposite P k)) = Some (sheight dc)
       \<and> composite_pixel P k x y
           = Some (pr * m + cr * (1 - pa * m), pg * m + cg * (1 - pa * m),
                   pb * m + cb * (1 - pa * m), pa * m + ca * (1 - pa * m))
       \<and> (pa = 1 \<longrightarrow>
            composite_pixel P k x y = Some (spec_lerp m (pixel prev x y) (pixel cur x y)))
       \<and> (m = 0 \<longrightarrow> composite_pixel P k x y = Some (pixel cur x y))
       \<and> (m = 1 \<and> pa = 1 \<longrightarrow> composite_pixel P k x y = Some (pixel prev x y))"
proof -
  obtain mr mg mb where mc: "pixel mc x y = (mr, mg, mb, m)"
    using assms(16) by (cases "pixel mc x y") auto
  have px: "composite_pixel P k x y
           = Some (pr * m + cr * (1 - pa * m), pg * m + cg * (1 - pa * m),
                   pb * m + cb * (1 - pa * m), pa * m + ca * (1 - pa * m))"
    using redraw_pixel(1) [OF assms(1-13)] by (simp add: mc assms(14,15))
  show ?thesis
    using redraw_pixel(2,3) [OF assms(1-13)]
    by (simp add: px assms(14,15) spec_lerp_def algebra_simps)
qed

theorem recompose_blends_previous_over_current_witness:
  "composite_pixel P0 (restore_session prevBlue maskHalf) 0 0 = Some (1 / 2, 0, 1 / 2, 1)
   \<and> composite_pixel P0 (restore_session prevBlue maskHalf) 0 0
       = Some (spec_lerp (1 / 2) (pixel prevBlue 0 0) (pixel curRed 0 0))
   \<and> composite_pixel P0 (restore_session prevBlue maskClear) 0 0 = Some (pixel curRed 0 0)
   \<and> composite_pixel P0 (restore_session prevBlue maskOpaque) 0 0 = Some (pixel prevBlue 0 0)"
proof -
  have a: "composite_pixel P0 (restore_session prevBlue maskHalf) 0 0 = Some (1 / 2, 0, 1 / 2, 1)
    \<and> composite_pixel P0 (restore_session prevBlue maskHalf) 0 0
       = Some (spec_lerp (1 / 2) (pixel prevBlue 0 0) (pixel curRed 0 0))"
    using recompose_blends_previous_over_current [where P = P0
        and k = "restore_session prevBlue maskHalf" and dc = "newCanvas 1 1" and mc = maskHalf
        and cur = curRed and prev = prevBlue and x = 0 and y = 0 and pr = 0 and pg = 0 and pb = 1
        and pa = 1 and cr = 1 and cg = 0 and cb = 0 and ca = 1 and m = "1 / 2"]
    by (simp add: maskHalf_def prevBlue_def curRed_def spec_lerp_def)
  have b: "composite_pixel P0 (restore_session prevBlue maskClear) 0 0 = Some (pixel curRed 0 0)"
    using recompose_blends_previous_over_current [where P = P0
        and k = "restore_session prevBlue maskClear" and dc = "newCanvas 1 1" and mc = maskClear
        and cur = curRed and prev = prevBlue and x = 0 and y = 0 and pr = 0 and pg = 0 and pb = 1
        and pa = 1 and cr = 1 and cg = 0 and cb = 0 and ca = 1 and m = 0]
    by (simp add: maskClear_def prevBlue_def curRed_def)
  have c: "composite_pixel P0 (restore_session prevBlue maskOpaque) 0 0 = Some (pixel prevBlue 0 0)"
    using recompose_blends_previous_over_current [where P = P0
        and k = "restore_session prevBlue maskOpaque" and dc = "newCanvas 1 1" and mc = maskOpaque
        and cur = curRed and prev = prevBlue and x = 0 and y = 0 and pr = 0 and pg = 0 and pb = 1
        and pa = 1 and cr = 1 and cg = 0 and cb = 0 and ca = 1 and m = 1]
    by (simp add: maskOpaque_def prevBlue_def curRed_def)
  from a b c show ?thesis by blast
qed


text \<open>
  C3 as stated fails where the previous image is not opaque: under a fully opaque
  mask a transparent previous pixel leaves the current pixel visible, so the composite
  is neither the previous pixel nor the interpolation with weight 1.
\<close>

theorem opaque_mask_over_transparent_previous:
  "alpha (pixel maskOpaque 0 0) = 1
   \<and> composite_pixel P0 (restore_session prevClear maskOpaque) 0 0 = Some (pixel curRed 0 0)
   \<and> composite_pixel P0 (restore_session prevClear maskOpaque) 0 0 \<noteq> Some (pixel prevClear 0 0)
   \<and> composite_pixel P0 (restore_session prevClear maskOpaque) 0 0
       \<noteq> Some (spec_lerp (alpha (pixel maskOpaque 0 0)) (pixel prevClear 0 0) (pixel curRed 0 0))"
  by (simp add: composite_pixel_def redrawComposite_def Let_def scaled_def paint_def
      clearRect_def newCanvas_def maskOpaque_def prevClear_def curRed_def spec_lerp_def
      transparent_def)


section \<open>Manual adjustment: the zero vector\<close>

lemma clamp01_id: "0 \<le> v \<Longrightarrow> v \<le> 1 \<Longrightarrow> clamp01 v = v"
  by (simp add: clamp01_def)

lemma unit_filters_id:
  assumes "valid_px p"
  shows "premultiply (css_saturate 1 (css_contrast 1 (css_brightness 1 (unpremultiply p)))) = p"
proof -
  obtain r g b a where p: "p = (r, g, b, a)" by (cases p) auto
  show ?thesis
  proof (cases "a = 0")
    case True
    with assms p show ?thesis by (simp add: clamp01_def)
  next
    case False
    with assms p have a: "0 < a" by auto
    have q: "0 \<le> r / a" "r / a \<le> 1" "0 \<le> g / a" "g / a \<le> 1" "0 \<le> b / a" "b / a \<le> 1"
      using assms p a by (simp_all add: divide_le_eq)
    show ?thesis
      using q False by (simp add: p clamp01_id)
  qed
qed

lemma css_filters_default: "valid_px p \<Longrightarrow> css_filters defaultAdjustments p = p"
  by (simp add: css_filters_def defaultAdjustments_def unit_filters_id)

lemma default_fields [simp]:
  "temperature defaultAdjustments = 0" "tint defaultAdjustments = 0"
  by (simp_all add: defaultAdjustments_def)

lemma manual_canvas_dims [simp]:
  "swidth (manual_canvas adj img) = swidth img" "sheight (manual_canvas adj img) = sheight img"
  by (simp_all add: manual_canvas_def Let_def fillRect_def newCanvas_def)

lemma manual_canvas_default_px:
  "pixel (manual_canvas defaultAdjustments img) x y =
     (if x < swidth img \<and> y < sheight img
      then css_filters defaultAdjustments (pixel img x y) else transparent)"
  by (simp add: manual_canvas_def Let_def paint_def newCanvas_def)

lemma round8_unique:
  "of_nat n \<le> v + 1 / 2 \<Longrightarrow> v + 1 / 2 < of_nat n + 1 \<Longrightarrow> round8 v = n"
proof -
  assume a: "of_nat n \<le> v + 1 / 2" "v + 1 / 2 < of_nat n + 1"
  have "\<lfloor>v + 1 / 2\<rfloor> = int n"
    by (rule floor_unique) (use a in simp_all)
  then show ?thesis by (simp add: round8_def)
qed

lemma round8_bounds:
  assumes "0 \<le> v"
  shows "of_nat (round8 v) \<le> v + 1 / 2" "v + 1 / 2 < of_nat (round8 v) + 1"
proof -
  have nn: "0 \<le> \<lfloor>v + 1 / 2\<rfloor>" using assms by simp
  have e: "(of_nat (round8 v) :: rat) = of_int \<lfloor>v + 1 / 2\<rfloor>"
    using nn by (simp add: round8_def)
  show "of_nat (round8 v) \<le> v + 1 / 2" unfolding e by (rule of_int_floor_le)
  show "v + 1 / 2 < of_nat (round8 v) + 1" unfolding e by linarith
qed

lemma round8_of_nat [simp]: "round8 (of_nat n) = n"
  by (rule round8_unique) simp_all

lemma premul_le:
  assumes "c \<le> 255" "a \<le> (255 :: nat)"
  shows "round8 (of_nat c * of_nat a / 255) \<le> a"
proof -
  let ?v = "(of_nat c * of_nat a / 255) :: rat"
  have "?v \<le> of_nat a"
  proof -
    have "(of_nat c :: rat) * of_nat a \<le> 255 * of_nat a"
      using assms(1) by (intro mult_right_mono) simp_all
    then show ?thesis by simp
  qed
  moreover have "of_nat (round8 ?v) \<le> ?v + 1 / 2"
    by (rule round8_bounds) simp
  ultimately have "(of_nat (round8 ?v) :: rat) < of_nat a + 1" by linarith
  then have "(of_nat (round8 ?v) :: rat) < of_nat (a + 1)" by simp
  then have "round8 ?v < a + 1" by (simp only: of_nat_less_iff)
  then show ?thesis by simp
qed

lemma unpremul_premul:
  assumes "q \<le> a" "0 < a" "a \<le> (255 :: nat)"
  shows "round8 (of_nat q * 255 / of_nat a) \<le> 255"
    and "round8 (of_nat (round8 (of_nat q * 255 / of_nat a)) * of_nat a / 255) = q"
proof -
  let ?A = "of_nat a :: rat" and ?Q = "of_nat q :: rat"
  let ?x = "?Q * 255 / ?A"
  let ?U = "of_nat (round8 ?x) :: rat"
  have A: "0 < ?A" "?A \<le> 255" using assms by simp_all
  have x0: "0 \<le> ?x" using A by simp
  have lo: "?U \<le> ?x + 1 / 2" and hi: "?x + 1 / 2 < ?U + 1"
    using round8_bounds [OF x0] by simp_all
  have xa: "?x * ?A = ?Q * 255" using A by simp
  have "?Q \<le> ?A" using assms(1) by simp
  then have "?Q * 255 \<le> 255 * ?A" by simp
  then have "?x \<le> 255" using A by (simp add: pos_divide_le_eq)
  with lo have "?U < 255 + 1" by linarith
  then have "?U < of_nat 256" by simp
  then have "round8 ?x < 256" by (simp only: of_nat_less_iff)
  then show "round8 ?x \<le> 255" by simp
  have lo': "?U * ?A \<le> ?Q * 255 + ?A / 2"
  proof -
    have "?U * ?A \<le> (?x + 1 / 2) * ?A" using lo A by (intro mult_right_mono) simp_all
    then show ?thesis using xa by (simp add: algebra_simps)
  qed
  have hi': "?Q * 255 + ?A / 2 < (?U + 1) * ?A"
  proof -
    have "(?x + 1 / 2) * ?A < (?U + 1) * ?A" using hi A by (intro mult_strict_right_mono) simp_all
    then show ?thesis using xa by (simp add: algebra_simps)
  qed
  show "round8 (?U * ?A / 255) = q"
  proof (rule round8_unique)
    show "?Q \<le> ?U * ?A / 255 + 1 / 2"
      using hi' A by (simp add: algebra_simps; linarith?)
    show "?U * ?A / 255 + 1 / 2 < ?Q + 1"
    proof (cases "a = 255")
      case True
      then have "?x = ?Q" by simp
      then have "round8 ?x = q" by simp
      then show ?thesis using True by simp
    next
      case False
      then have "a < 255" using assms(3) by simp
      then have "?A < 255" by (metis of_nat_less_iff of_nat_numeral)
      then show ?thesis using lo' by (simp add: algebra_simps; linarith?)
    qed
  qed
qed

lemma decode8_valid: "valid8 p \<Longrightarrow> valid_px (decode8 p)"
proof -
  assume v: "valid8 p"
  obtain r g b a where p: "p = (r, g, b, a)" by (cases p) auto
  have le: "(of_nat c :: rat) / 255 * (of_nat a / 255) \<le> of_nat a / 255" if "c \<le> 255" for c :: nat
  proof -
    have "(of_nat c :: rat) / 255 \<le> 1" using that by simp
    then have "(of_nat c :: rat) / 255 * (of_nat a / 255) \<le> 1 * (of_nat a / 255)"
      by (intro mult_right_mono) simp_all
    then show ?thesis by simp
  qed
  show ?thesis
    using v le [of r] le [of g] le [of b] by (simp add: p)
qed

lemma round8_numeral [simp]: "round8 (numeral k) = numeral k"
  using round8_of_nat [of "numeral k"] by simp

lemma round8_zero [simp]: "round8 0 = 0"
  using round8_of_nat [of 0] by simp

lemma store8_decode8:
  "store8 (decode8 (r, g, b, a))
     = (round8 (of_nat r * of_nat a / 255), round8 (of_nat g * of_nat a / 255),
        round8 (of_nat b * of_nat a / 255), a)"
proof -
  have e: "255 * (c / 255 * (of_nat a / 255)) = c * of_nat a / (255 :: rat)" for c
    by simp
  have "round8 (255 * (of_nat a / 255)) = a"
    by simp
  then show ?thesis
    by (simp only: decode8.simps premultiply.simps store8.simps e)
qed

lemma store8_transparent [simp]: "encode8 (store8 transparent) = (0, 0, 0, 0)"
  by (simp add: transparent_def)

lemma zero_roundtrip_opaque:
  assumes "valid8 (r, g, b, 255)"
  shows "encode8 (store8 (decode8 (r, g, b, 255))) = (r, g, b, 255)"
proof -
  have "store8 (decode8 (r, g, b, 255)) = (r, g, b, 255)"
    by (simp add: store8_decode8 del: decode8.simps store8.simps)
  then show ?thesis
    using assms by simp
qed

lemma zero_roundtrip_steps:
  assumes "valid8 (r, g, b, a)" and "0 < a"
  defines "q c \<equiv> round8 (of_nat c * of_nat a / 255)"
  defines "u c \<equiv> round8 (of_nat (q c) * 255 / of_nat a)"
  shows "encode8 (store8 (decode8 (r, g, b, a))) = (u r, u g, u b, a)"
    and "store8 (decode8 (u r, u g, u b, a)) = (q r, q g, q b, a)"
    and "encode8 (q r, q g, q b, a) = (u r, u g, u b, a)"
    and "valid8 (u r, u g, u b, a)"
proof -
  have a: "0 < a" "a \<le> 255" using assms by simp_all
  have c: "r \<le> 255" "g \<le> 255" "b \<le> 255" using assms by simp_all
  have qa: "q r \<le> a" "q g \<le> a" "q b \<le> a"
    unfolding q_def using c a by (simp_all add: premul_le)
  have ule: "u r \<le> 255" "u g \<le> 255" "u b \<le> 255"
    unfolding u_def using unpremul_premul(1) [OF qa(1) a] unpremul_premul(1) [OF qa(2) a]
      unpremul_premul(1) [OF qa(3) a] by simp_all
  have uq: "round8 (of_nat (u r) * of_nat a / 255) = q r"
    "round8 (of_nat (u g) * of_nat a / 255) = q g"
    "round8 (of_nat (u b) * of_nat a / 255) = q b"
    unfolding u_def using unpremul_premul(2) [OF qa(1) a] unpremul_premul(2) [OF qa(2) a]
      unpremul_premul(2) [OF qa(3) a] by simp_all
  show e: "encode8 (q r, q g, q b, a) = (u r, u g, u b, a)"
    using a(1) ule by (simp add: u_def min_absorb2)
  have "store8 (decode8 (r, g, b, a)) = (q r, q g, q b, a)"
    by (simp only: store8_decode8 q_def)
  then show "encode8 (store8 (decode8 (r, g, b, a))) = (u r, u g, u b, a)"
    by (simp only: e)
  show "store8 (decode8 (u r, u g, u b, a)) = (q r, q g, q b, a)"
    by (simp only: store8_decode8 uq)
  show "valid8 (u r, u g, u b, a)"
    using ule a by simp
qed

lemma zero_roundtrip_valid:
  assumes "valid8 p"
  shows "valid8 (encode8 (store8 (decode8 p)))"
proof -
  obtain r g b a where p: "p = (r, g, b, a)" by (cases p) auto
  show ?thesis
  proof (cases "a = 0")
    case True
    then show ?thesis by (simp add: p)
  next
    case False
    then have "0 < a" by simp
    from zero_roundtrip_steps(1,4) [OF assms [unfolded p] this] show ?thesis
      by (simp only: p)
  qed
qed

lemma zero_roundtrip_idem:
  assumes "valid8 p"
  shows "encode8 (store8 (decode8 (encode8 (store8 (decode8 p))))) = encode8 (store8 (decode8 p))"
proof -
  obtain r g b a where p: "p = (r, g, b, a)" by (cases p) auto
  show ?thesis
  proof (cases "a = 0")
    case True
    then show ?thesis by (simp add: p)
  next
    case False
    then have "0 < a" by simp
    from zero_roundtrip_steps(1,2,3) [OF assms [unfolded p] this] show ?thesis
      by (simp only: p)
  qed
qed

lemma manual_snapshot_default_px:
  assumes "x < iwidth src" "y < iheight src" "valid8 (ipixel src x y)"
  shows "ipixel (manual_snapshot defaultAdjustments src) x y
           = encode8 (store8 (decode8 (ipixel src x y)))"
  using assms
  by (simp add: manual_snapshot_def encode_canvas_def decode_image_def manual_canvas_default_px
      css_filters_default decode8_valid del: decode8.simps)

lemma manual_snapshot_default_outside:
  assumes "\<not> (x < iwidth src \<and> y < iheight src)"
  shows "ipixel (manual_snapshot defaultAdjustments src) x y = (0, 0, 0, 0)"
  using assms
  by (auto simp add: manual_snapshot_def encode_canvas_def decode_image_def manual_canvas_default_px)

lemma manual_snapshot_dims [simp]:
  "iwidth (manual_snapshot adj src) = iwidth src" "iheight (manual_snapshot adj src) = iheight src"
  by (simp_all add: manual_snapshot_def encode_canvas_def decode_image_def)

text \<open>
  C8, as the code has it. For a snapshot of byte pixels the pipeline with the all-zero
  vector makes a snapshot of the same size. Each pixel is the source pixel after the
  premultiplied bytes of the canvas: an opaque pixel is unchanged, and on the result
  the pipeline changes nothing, so any number of applications equals one.
\<close>

theorem zero_adjustment_keeps_opaque_pixels:
  assumes "\<And>x y. x < iwidth src \<Longrightarrow> y < iheight src \<Longrightarrow> valid8 (ipixel src x y)"
  shows "iwidth (manual_snapshot defaultAdjustments src) = iwidth src
       \<and> iheight (manual_snapshot defaultAdjustments src) = iheight src
       \<and> (\<forall>x<iwidth src. \<forall>y<iheight src.
             alpha8 (ipixel src x y) = 255 \<longrightarrow>
               ipixel (manual_snapshot defaultAdjustments src) x y = ipixel src x y)
       \<and> (\<forall>x<iwidth src. \<forall>y<iheight src.
             ipixel (manual_snapshot defaultAdjustments src) x y
               = encode8 (store8 (decode8 (ipixel src x y))))
       \<and> manual_snapshot defaultAdjustments (manual_snapshot defaultAdjustments src)
           = manual_snapshot defaultAdjustments src
       \<and> (manual_snapshot defaultAdjustments ^^ Suc n) src
           = manual_snapshot defaultAdjustments src"
proof -
  let ?m = "manual_snapshot defaultAdjustments"
  have px: "ipixel (?m src) x y = encode8 (store8 (decode8 (ipixel src x y)))"
    if "x < iwidth src" "y < iheight src" for x y
    using that assms by (simp add: manual_snapshot_default_px)
  have op: "ipixel (?m src) x y = ipixel src x y"
    if "x < iwidth src" "y < iheight src" "alpha8 (ipixel src x y) = 255" for x y
  proof -
    obtain r g b a where p: "ipixel src x y = (r, g, b, a)" by (cases "ipixel src x y") auto
    with that(3) have a: "a = 255" by simp
    have "valid8 (r, g, b, 255)" using assms [OF that(1,2)] p a by simp
    then show ?thesis using px [OF that(1,2)] p a by (simp only: zero_roundtrip_opaque)
  qed
  have "ipixel (?m (?m src)) x y = ipixel (?m src) x y" for x y
  proof (cases "x < iwidth src \<and> y < iheight src")
    case True
    then have v: "valid8 (ipixel (?m src) x y)"
      using assms px by (simp add: zero_roundtrip_valid)
    have "ipixel (?m (?m src)) x y = encode8 (store8 (decode8 (ipixel (?m src) x y)))"
      using True v by (intro manual_snapshot_default_px) simp_all
    then show ?thesis
      using True px assms by (simp add: zero_roundtrip_idem)
  next
    case False
    then show ?thesis
      by (simp add: manual_snapshot_default_outside)
  qed
  then have "ipixel (?m (?m src)) = ipixel (?m src)"
    by (intro ext)
  then have idem: "?m (?m src) = ?m src"
    by (intro image8.equality) simp_all
  have it: "(?m ^^ Suc n) src = ?m src"
    by (induction n) (simp_all add: idem)
  show ?thesis
    using idem it px op by simp
qed

lemma mixed8_valid: "valid8 (ipixel mixed8 x y)"
  by (simp add: mixed8_def)

theorem zero_adjustment_keeps_opaque_pixels_witness:
  "valid8 (ipixel mixed8 0 0)
   \<and> alpha8 (ipixel mixed8 0 0) = 255
   \<and> ipixel (manual_snapshot defaultAdjustments mixed8) 0 0 = (200, 100, 50, 255)
   \<and> manual_snapshot defaultAdjustments (manual_snapshot defaultAdjustments mixed8)
       = manual_snapshot defaultAdjustments mixed8
   \<and> (manual_snapshot defaultAdjustments ^^ Suc 2) mixed8
       = manual_snapshot defaultAdjustments mixed8"
proof -
  have v: "\<And>x y. x < iwidth mixed8 \<Longrightarrow> y < iheight mixed8 \<Longrightarrow> valid8 (ipixel mixed8 x y)"
    by (rule mixed8_valid)
  have d: "(0 :: nat) < iwidth mixed8" "(0 :: nat) < iheight mixed8"
    "alpha8 (ipixel mixed8 0 0) = 255" "ipixel mixed8 0 0 = (200, 100, 50, 255)"
    by (simp_all add: mixed8_def)
  note t = zero_adjustment_keeps_opaque_pixels [OF v, of 2]
  from t d(1-3) have "ipixel (manual_snapshot defaultAdjustments mixed8) 0 0 = ipixel mixed8 0 0"
    by blast
  with d(4) have p: "ipixel (manual_snapshot defaultAdjustments mixed8) 0 0 = (200, 100, 50, 255)"
    by simp
  from t p d(3) mixed8_valid [of 0 0] show ?thesis
    by blast
qed

text \<open>
  C8 as stated fails on a pixel that is not opaque: the pixel (200, 100, 50) with alpha
  3 is kept in the canvas as (2, 1, 1) with alpha 3 and comes back as (170, 85, 85).
\<close>

theorem zero_adjustment_changes_faint_pixel:
  "ipixel mixed8 1 0 = (200, 100, 50, 3)
   \<and> ipixel (manual_snapshot defaultAdjustments mixed8) 1 0 = (170, 85, 85, 3)
   \<and> ipixel (manual_snapshot defaultAdjustments mixed8) 1 0 \<noteq> ipixel mixed8 1 0"
proof -
  have "ipixel (manual_snapshot defaultAdjustments mixed8) 1 0
          = encode8 (store8 (decode8 (ipixel mixed8 1 0)))"
    by (rule manual_snapshot_default_px) (simp_all add: mixed8_def)
  then show ?thesis
    by (simp add: mixed8_def round8_def del: round8_numeral)
qed

section \<open>Manual adjustment: temperature\<close>

text \<open>
  The overlay blend of the canvas is the formula of the specification on 8-bit
  channel values, and with exposure, contrast and saturation at zero the pipeline
  puts exactly the channel of the specification on an opaque pixel, for a warm and
  for a cool temperature.
\<close>

lemma overlay_blend_spec:
  assumes "0 \<le> b" "b \<le> 255"
  shows "255 * overlay_blend (of_int b / 255) (s / 255) = overlay_spec (of_int b) s"
proof (cases "b \<le> 127")
  case True
  then have "(of_int b :: rat) \<le> 127" by (metis of_int_le_iff of_int_numeral)
  then show ?thesis by (simp add: overlay_blend_def overlay_spec_def)
next
  case False
  then have "128 \<le> b" by simp
  then have "(128 :: rat) \<le> of_int b" by (metis of_int_le_iff of_int_numeral)
  then show ?thesis by (simp add: overlay_blend_def overlay_spec_def field_simps)
qed

lemma css_filters_unit:
  assumes "exposure adj = 0" "contrast adj = 0" "saturation adj = 0" "valid_px p"
  shows "css_filters adj p = p"
  using assms by (simp add: css_filters_def unit_filters_id)

lemma overlay_channel:
  assumes "0 < a" "a \<le> 1" "0 \<le> b" "b \<le> 255"
  shows "blend_channel overlay_blend (s / 255 * a) a (of_int b / 255) 1
           = ((1 - a) * of_int b + a * overlay_spec (of_int b) s) / 255"
proof -
  have "blend_channel overlay_blend (s / 255 * a) a (of_int b / 255) 1
          = (1 - a) * (of_int b / 255) + a * overlay_blend (of_int b / 255) (s / 255)"
    using assms(1) by (simp add: blend_channel_def)
  also have "\<dots> = ((1 - a) * of_int b + a * (255 * overlay_blend (of_int b / 255) (s / 255))) / 255"
    by (simp add: field_simps)
  finally show ?thesis
    by (simp add: overlay_blend_spec [OF assms(3,4)])
qed

lemma temperature_overlay_without_filters:
  assumes "exposure adj = 0" "contrast adj = 0" "saturation adj = 0" "tint adj = 0"
    and "0 < temperature adj" "temperature adj \<le> 200"
    and "x < swidth img" "y < sheight img"
    and "pixel img x y = (of_int r / 255, of_int g / 255, of_int b / 255, 1)"
    and "0 \<le> r" "r \<le> 255" "0 \<le> g" "g \<le> 255" "0 \<le> b" "b \<le> 255"
  shows "pixel (manual_canvas adj img) x y
           = (spec_temperature_channel (temperature adj) (of_int r) 255 / 255,
              spec_temperature_channel (temperature adj) (of_int g) 165 / 255,
              spec_temperature_channel (temperature adj) (of_int b) 0 / 255, 1)"
proof -
  let ?a = "temperature adj / 200"
  have a: "0 < ?a" "?a \<le> 1" using assms(5,6) by simp_all
  have ca: "clamp01 ?a = ?a" using a by (simp add: clamp01_def)
  have vb: "valid_px (pixel img x y)"
    using assms by (simp add: divide_le_eq)
  have vf: "valid_px (css_rgba 255 165 0 ?a)"
    using a by (simp add: css_rgba_def ca mult_le_cancel_right1)
  have "pixel (manual_canvas adj img) x y
          = blend_over overlay_blend (css_rgba 255 165 0 ?a) (pixel img x y)"
    using assms(4,5,7,8)
    by (simp add: manual_canvas_def Let_def fillRect_def paint_def newCanvas_def
        css_filters_unit [OF assms(1-3) vb] css_filters_unit [OF assms(1-3) vf])
  also have "\<dots> = (spec_temperature_channel (temperature adj) (of_int r) 255 / 255,
              spec_temperature_channel (temperature adj) (of_int g) 165 / 255,
              spec_temperature_channel (temperature adj) (of_int b) 0 / 255, 1)"
    using overlay_channel [OF a assms(10,11), of 255] overlay_channel [OF a assms(12,13), of 165]
      overlay_channel [OF a assms(14,15), of 0]
    by (simp add: assms(9) css_rgba_def ca spec_temperature_channel_def)
  finally show ?thesis .
qed

lemma cooling_overlay_without_filters:
  assumes "exposure adj = 0" "contrast adj = 0" "saturation adj = 0" "tint adj = 0"
    and "temperature adj < 0" "- 200 \<le> temperature adj"
    and "x < swidth img" "y < sheight img"
    and "pixel img x y = (of_int r / 255, of_int g / 255, of_int b / 255, 1)"
    and "0 \<le> r" "r \<le> 255" "0 \<le> g" "g \<le> 255" "0 \<le> b" "b \<le> 255"
  shows "pixel (manual_canvas adj img) x y
           = (spec_temperature_channel (- temperature adj) (of_int r) 0 / 255,
              spec_temperature_channel (- temperature adj) (of_int g) 100 / 255,
              spec_temperature_channel (- temperature adj) (of_int b) 255 / 255, 1)"
proof -
  let ?a = "- (temperature adj / 200)"
  have a: "0 < ?a" "?a \<le> 1" using assms(5,6) by simp_all
  have ca: "clamp01 ?a = ?a" using a by (simp add: clamp01_def)
  have vb: "valid_px (pixel img x y)"
    using assms by (simp add: divide_le_eq)
  have vf: "valid_px (css_rgba 0 100 255 ?a)"
    using a by (simp add: css_rgba_def ca mult_le_cancel_right1 del: minus_divide_left)
  have "pixel (manual_canvas adj img) x y
          = blend_over overlay_blend (css_rgba 0 100 255 ?a) (pixel img x y)"
    using assms(4,5,7,8)
    by (simp add: manual_canvas_def Let_def fillRect_def paint_def newCanvas_def
        css_filters_unit [OF assms(1-3) vb] css_filters_unit [OF assms(1-3) vf])
  also have "\<dots> = (spec_temperature_channel (- temperature adj) (of_int r) 0 / 255,
              spec_temperature_channel (- temperature adj) (of_int g) 100 / 255,
              spec_temperature_channel (- temperature adj) (of_int b) 255 / 255, 1)"
    using overlay_channel [OF a assms(10,11), of 0] overlay_channel [OF a assms(12,13), of 100]
      overlay_channel [OF a assms(14,15), of 255]
    by (simp add: assms(9) css_rgba_def ca spec_temperature_channel_def)
  finally show ?thesis .
qed

text \<open>
  C9 on the code. For an opaque gray pixel of value 128 and temperature 100 alone the
  pipeline yields the channels the formula gives: 383/510, 4987/8670 and 43/170 of
  full scale (191.5, about 146.7, and 64.5 of 255). With saturation -100 as well the
  gray base is unchanged by the filter, so the formula still asks for these channels;
  but the filter of the context is still set when the tint rectangle is filled, the
  orange is desaturated to gray before it is blended, and the pipeline yields the same
  value 1277611/2167500 (about 150.3 of 255) on every channel.
\<close>

theorem temperature_tint_is_filtered:
  "pixel grayImg 0 0 = (128 / 255, 128 / 255, 128 / 255, 1)
   \<and> css_filters adjWarmDesat (pixel grayImg 0 0) = (128 / 255, 128 / 255, 128 / 255, 1)
   \<and> pixel (manual_canvas adjWarmDesat grayImg) 0 0
       = (1277611 / 2167500, 1277611 / 2167500, 1277611 / 2167500, 1)
   \<and> (spec_temperature_channel 100 128 255 / 255, spec_temperature_channel 100 128 165 / 255,
       spec_temperature_channel 100 128 0 / 255, 1)
       = (383 / 510, 4987 / 8670, 43 / 170, 1 :: rat)
   \<and> pixel (manual_canvas adjWarmDesat grayImg) 0 0
       \<noteq> (spec_temperature_channel 100 128 255 / 255, spec_temperature_channel 100 128 165 / 255,
          spec_temperature_channel 100 128 0 / 255, 1)
   \<and> pixel (manual_canvas adjWarm grayImg) 0 0
       = (spec_temperature_channel 100 128 255 / 255, spec_temperature_channel 100 128 165 / 255,
          spec_temperature_channel 100 128 0 / 255, 1)"
  by (simp add: grayImg_def adjWarmDesat_def adjWarm_def manual_canvas_def Let_def paint_def newCanvas_def
      defaultAdjustments_def fillRect_def css_filters_def css_rgba_def clamp01_def
      blend_channel_def overlay_blend_def spec_temperature_channel_def overlay_spec_def
      transparent_def solid_def)

end
